theory Spec2Isabelle
  imports Main "HOL-Library.Word" "HOL-Library.Signed_Division"
begin

section \<open>Abstract syntax\<close>

text \<open>
  Modelled from the spec: the package \<open>ast\<close> is used by the evaluator but its declarations
  are not among the sources. The node kinds and their fields are those of the data model
  (Statements \<open>Let\<close>, \<open>Return\<close>, \<open>Expression\<close>, \<open>Block\<close>, \<open>Program\<close>; Expressions
  \<open>Identifier\<close> to \<open>Index\<close>), with the field names the evaluator reads. An identifier is
  its \<open>Value\<close>, a block is its \<open>Statements\<close>, an absent \<open>Alternative\<close> is \<open>None\<close>.
  \<open>HashLiteral\<close> carries its \<open>Pairs\<close> in the order in which the evaluator's \<open>range\<close>
  visits them.
\<close>

datatype expr =
    Identifier string
  | IntegerLiteral "64 word"
  | FloatLiteral "64 word"
  | StringLiteral string
  | BoolLiteral bool
  | ArrayLiteral "expr list"
  | HashLiteral "(expr \<times> expr) list"
  | PrefixExpression string expr
  | InfixExpression string expr expr
  | IfExpression expr "stmt list" "stmt list option"
  | FunctionLiteral "string list" "stmt list"
  | CallExpression expr "expr list"
  | IndexExpression expr expr
and stmt =
    LetStatement string expr
  | ReturnStatement expr
  | ExpressionStatement expr

datatype node =
    Program "stmt list"
  | BlockStatement "stmt list"
  | Statement stmt
  | Expression expr

section \<open>Objects (package object)\<close>

datatype ObjectType =
  INTEGER | FLOAT | BOOL | NULL | ERROR | FUNCTION | STRING | BUILTIN | ARRAY | HASH
  | RETURN_VALUE

text \<open>
  A value of the interface type \<open>Object\<close>: \<open>Nil_Object\<close> is the nil interface value, every
  other constructor is one of the implementing types. \<open>Integer\<close> is an \<open>int64\<close>. A
  \<open>Float\<close> carries the 64 bits of a \<open>float64\<close>; its arithmetic is a parameter (see
  \<open>host\<close>). \<open>Error\<close> carries the message of its \<open>Err\<close>. \<open>Function\<close>, \<open>Array\<close> and
  \<open>Builtin\<close> are used through pointers: the first field of \<open>Function\<close> and \<open>Array\<close> is
  the address of the allocation, which is what \<open>==\<close> compares; a \<open>Builtin\<close> is named by
  its key in the builtin table. The last field of \<open>Function\<close> is the address of its
  \<open>Env\<close>. A \<open>Hash\<close> is a Go map, kept as the list of its entries.
\<close>

datatype obj =
    Nil_Object
  | Integer "64 word"
  | Float "64 word"
  | Bool bool
  | String string
  | Null
  | Error string
  | Function nat "string list" "stmt list" nat
  | Builtin string
  | Array nat "obj list"
  | Hash "(obj \<times> obj) list"
  | ReturnValue obj

text \<open>A Go computation that either yields a value or panics with a runtime error.\<close>

datatype 'a result = Ok 'a | Fault string

definition nil_dereference :: string where
  "nil_dereference = ''runtime error: invalid memory address or nil pointer dereference''"

text \<open>The method \<open>Type\<close>; calling it on the nil interface value panics.\<close>

fun Type :: "obj \<Rightarrow> ObjectType result" where
  "Type Nil_Object = Fault nil_dereference"
| "Type (Integer i) = Ok INTEGER"
| "Type (Float f) = Ok FLOAT"
| "Type (Bool b) = Ok BOOL"
| "Type (String s) = Ok STRING"
| "Type Null = Ok NULL"
| "Type (Error e) = Ok ERROR"
| "Type (Function a ps body env) = Ok FUNCTION"
| "Type (Builtin name) = Ok BUILTIN"
| "Type (Array a elems) = Ok ARRAY"
| "Type (Hash m) = Ok HASH"
| "Type (ReturnValue v) = Ok RETURN_VALUE"

text \<open>
  Modelled from the spec: \<open>ObjectType.String\<close> is generated by \<open>stringer\<close> and is not among
  the sources; it prints the name of the constant, as in the message
  \<open>unknown operator: STRING - STRING\<close>.
\<close>

fun ObjectType_String :: "ObjectType \<Rightarrow> string" where
  "ObjectType_String INTEGER = ''INTEGER''"
| "ObjectType_String FLOAT = ''FLOAT''"
| "ObjectType_String BOOL = ''BOOL''"
| "ObjectType_String NULL = ''NULL''"
| "ObjectType_String ERROR = ''ERROR''"
| "ObjectType_String FUNCTION = ''FUNCTION''"
| "ObjectType_String STRING = ''STRING''"
| "ObjectType_String BUILTIN = ''BUILTIN''"
| "ObjectType_String ARRAY = ''ARRAY''"
| "ObjectType_String HASH = ''HASH''"
| "ObjectType_String RETURN_VALUE = ''RETURN_VALUE''"

fun Hashable :: "obj \<Rightarrow> bool result" where
  "Hashable obj =
     (case Type obj of
        Fault m \<Rightarrow> Fault m
      | Ok t \<Rightarrow> Ok (t = BOOL \<or> t = STRING \<or> t = INTEGER))"

subsection \<open>What the evaluator takes from outside\<close>

text \<open>
  The builtin table, the printing of syntax trees and the arithmetic of \<open>float64\<close> are not
  part of the sources; they are parameters of the model. \<open>builtin_table name\<close> says whether
  \<open>builtins[name]\<close> is present, \<open>builtin_Fn name args a\<close> is the result of calling that
  builtin's \<open>Fn\<close> when \<open>a\<close> is the next free address (a builtin may allocate the array
  that it returns; the call uses up one address).
\<close>

record host =
  builtin_table :: "string \<Rightarrow> bool"
  builtin_Fn :: "string \<Rightarrow> obj list \<Rightarrow> nat \<Rightarrow> obj"
  ast_String :: "node \<Rightarrow> string"
  float_of_int64 :: "64 word \<Rightarrow> 64 word"
  float_add :: "64 word \<Rightarrow> 64 word \<Rightarrow> 64 word"
  float_sub :: "64 word \<Rightarrow> 64 word \<Rightarrow> 64 word"
  float_mul :: "64 word \<Rightarrow> 64 word \<Rightarrow> 64 word"
  float_div :: "64 word \<Rightarrow> 64 word \<Rightarrow> 64 word"
  float_less :: "64 word \<Rightarrow> 64 word \<Rightarrow> bool"
  float_eq :: "64 word \<Rightarrow> 64 word \<Rightarrow> bool"
  float_format :: "64 word \<Rightarrow> string"

subsection \<open>Comparison of interface values and Go maps\<close>

text \<open>
  \<open>a == b\<close> on two \<open>Object\<close> values: false when the dynamic types differ, a panic when
  both are of the uncomparable type \<open>Hash\<close>, the comparison of the payloads otherwise
  (of the addresses for the pointer types). Two builtins are the same pointer when they
  have the same key in the table. No \<open>Error\<close> reaches a comparison in the evaluator, which
  returns it before; the clause for it compares the messages.
\<close>

definition uncomparable :: string where
  "uncomparable = ''runtime error: comparing uncomparable type object.Hash''"

fun interface_eq :: "host \<Rightarrow> obj \<Rightarrow> obj \<Rightarrow> bool result" where
  "interface_eq h Nil_Object b = (case b of Nil_Object \<Rightarrow> Ok True | _ \<Rightarrow> Ok False)"
| "interface_eq h (Integer x) b = (case b of Integer y \<Rightarrow> Ok (x = y) | _ \<Rightarrow> Ok False)"
| "interface_eq h (Float x) b = (case b of Float y \<Rightarrow> Ok (float_eq h x y) | _ \<Rightarrow> Ok False)"
| "interface_eq h (Bool x) b = (case b of Bool y \<Rightarrow> Ok (x = y) | _ \<Rightarrow> Ok False)"
| "interface_eq h (String x) b = (case b of String y \<Rightarrow> Ok (x = y) | _ \<Rightarrow> Ok False)"
| "interface_eq h Null b = (case b of Null \<Rightarrow> Ok True | _ \<Rightarrow> Ok False)"
| "interface_eq h (Error x) b = (case b of Error y \<Rightarrow> Ok (x = y) | _ \<Rightarrow> Ok False)"
| "interface_eq h (Function a ps body env) b =
     (case b of Function a' ps' body' env' \<Rightarrow> Ok (a = a') | _ \<Rightarrow> Ok False)"
| "interface_eq h (Builtin x) b = (case b of Builtin y \<Rightarrow> Ok (x = y) | _ \<Rightarrow> Ok False)"
| "interface_eq h (Array a elems) b =
     (case b of Array a' elems' \<Rightarrow> Ok (a = a') | _ \<Rightarrow> Ok False)"
| "interface_eq h (Hash m) b = (case b of Hash m' \<Rightarrow> Fault uncomparable | _ \<Rightarrow> Ok False)"
| "interface_eq h (ReturnValue v) b =
     (case b of ReturnValue w \<Rightarrow> interface_eq h v w | _ \<Rightarrow> Ok False)"

text \<open>
  A key can be hashed unless its dynamic type is \<open>Hash\<close> (directly, or in the field of a
  \<open>ReturnValue\<close>); hashing such a key panics.
\<close>

fun can_hash :: "obj \<Rightarrow> bool" where
  "can_hash (Hash m) = False"
| "can_hash (ReturnValue v) = can_hash v"
| "can_hash other = True"

definition unhashable :: string where
  "unhashable = ''runtime error: hash of unhashable type object.Hash''"

definition same_key :: "host \<Rightarrow> obj \<Rightarrow> obj \<Rightarrow> bool" where
  "same_key h a b = (case interface_eq h a b of Ok eq \<Rightarrow> eq | Fault m \<Rightarrow> False)"

text \<open>\<open>m[key] = value\<close>: the entry of an equal key is overwritten, a new key is added.\<close>

fun store_entry :: "host \<Rightarrow> (obj \<times> obj) list \<Rightarrow> obj \<Rightarrow> obj \<Rightarrow> (obj \<times> obj) list" where
  "store_entry h [] key val = [(key, val)]"
| "store_entry h ((k, v) # m) key val =
     (if same_key h k key then (k, val) # m else (k, v) # store_entry h m key val)"

definition map_assign ::
  "host \<Rightarrow> (obj \<times> obj) list \<Rightarrow> obj \<Rightarrow> obj \<Rightarrow> (obj \<times> obj) list result" where
  "map_assign h m key val =
     (if can_hash key then Ok (store_entry h m key val) else Fault unhashable)"

text \<open>\<open>got, ok := m[key]\<close> for a key that can be hashed.\<close>

fun map_access :: "host \<Rightarrow> (obj \<times> obj) list \<Rightarrow> obj \<Rightarrow> obj option" where
  "map_access h [] key = None"
| "map_access h ((k, v) # m) key = (if same_key h k key then Some v else map_access h m key)"

section \<open>Environments\<close>

text \<open>
  Environments live on a heap, since closures and call frames share them by pointer:
  \<open>envs st a\<close> is the \<open>Environment\<close> at address \<open>a\<close>, its \<open>parent\<close> is \<open>None\<close> for the
  nil pointer, and \<open>next_addr st\<close> is the next address that an allocation returns. The
  allocations of \<open>Function\<close> and \<open>Array\<close> values take their addresses from the same
  counter. An environment passed to \<open>Eval\<close> is an address, that is, a pointer that is
  not nil.
\<close>

record environment =
  store :: "string \<rightharpoonup> obj"
  parent :: "nat option"

record heap =
  envs :: "nat \<Rightarrow> environment"
  next_addr :: nat

definition NewEnvironment :: "heap \<Rightarrow> nat \<times> heap" where
  "NewEnvironment st =
     (next_addr st,
      st\<lparr>envs := (envs st)(next_addr st := \<lparr>store = Map.empty, parent = None\<rparr>),
         next_addr := Suc (next_addr st)\<rparr>)"

definition NewEnclosedEnvironment :: "nat \<Rightarrow> heap \<Rightarrow> nat \<times> heap" where
  "NewEnclosedEnvironment outer st =
     (case NewEnvironment st of
        (env, st') \<Rightarrow> (env, st'\<lparr>envs := (envs st')(env := (envs st' env)\<lparr>parent := Some outer\<rparr>)\<rparr>))"

text \<open>
  \<open>Get\<close> follows the parent pointers; the result \<open>None\<close> stands for a walk that does not
  return (a cyclic chain of parents).
\<close>

partial_function (option) Environment_Get :: "heap \<Rightarrow> nat \<Rightarrow> string \<Rightarrow> (obj \<times> bool) option"
  where
  "Environment_Get st e name =
     (case store (envs st e) name of
        Some obj \<Rightarrow> Some (obj, True)
      | None \<Rightarrow>
          (case parent (envs st e) of
             None \<Rightarrow> Some (Nil_Object, False)
           | Some p \<Rightarrow> Environment_Get st p name))"

declare Environment_Get.simps [code]

definition Environment_Set :: "heap \<Rightarrow> nat \<Rightarrow> string \<Rightarrow> obj \<Rightarrow> heap" where
  "Environment_Set st e name val =
     st\<lparr>envs := (envs st)(e := (envs st e)\<lparr>store := (store (envs st e))(name \<mapsto> val)\<rparr>)\<rparr>"

section \<open>The evaluator\<close>

text \<open>
  How a call of the evaluator ends: it returns a value and leaves a heap, it panics with a
  runtime error (and leaves a heap, which \<open>recover\<close> can observe), or it is still running
  when the fuel of the model is used up.
\<close>

datatype 'a outcome = Ret 'a heap | Panic string heap | Timeout

fun lift :: "'a result \<Rightarrow> heap \<Rightarrow> 'a outcome" where
  "lift (Ok v) st = Ret v st"
| "lift (Fault m) st = Panic m st"

fun seq :: "'a outcome \<Rightarrow> ('a \<Rightarrow> heap \<Rightarrow> 'b outcome) \<Rightarrow> 'b outcome" where
  "seq (Ret v st) k = k v st"
| "seq (Panic m st) k = Panic m st"
| "seq Timeout k = Timeout"

fun rbind :: "'a result \<Rightarrow> ('a \<Rightarrow> 'b result) \<Rightarrow> 'b result" where
  "rbind (Ok v) k = k v"
| "rbind (Fault m) k = Fault m"

text \<open>Type assertions \<open>x.(T)\<close>: a panic when the dynamic type is another one.\<close>

definition conversion :: string where
  "conversion = ''interface conversion: object.Object is not of the asserted type''"

definition as_Integer :: "obj \<Rightarrow> 64 word result" where
  "as_Integer x = (case x of Integer i \<Rightarrow> Ok i | _ \<Rightarrow> Fault conversion)"

definition as_Float :: "obj \<Rightarrow> 64 word result" where
  "as_Float x = (case x of Float f \<Rightarrow> Ok f | _ \<Rightarrow> Fault conversion)"

definition as_String :: "obj \<Rightarrow> string result" where
  "as_String x = (case x of String s \<Rightarrow> Ok s | _ \<Rightarrow> Fault conversion)"

abbreviation TRUE :: obj where "TRUE \<equiv> Bool True"
abbreviation FALSE :: obj where "FALSE \<equiv> Bool False"

text \<open>\<open>newError\<close>: the message is the format with its arguments already filled in.\<close>

definition newError :: "string \<Rightarrow> obj" where
  "newError msg = Error msg"

definition isError :: "obj \<Rightarrow> bool" where
  "isError obj = (if obj \<noteq> Nil_Object then Type obj = Ok ERROR else False)"

definition evalBangOperatorExpression :: "obj \<Rightarrow> obj" where
  "evalBangOperatorExpression right =
     (case right of Bool v \<Rightarrow> Bool (\<not> v) | Null \<Rightarrow> TRUE | _ \<Rightarrow> FALSE)"

definition evalMinusPrefixOperatorExpression :: "obj \<Rightarrow> obj result" where
  "evalMinusPrefixOperatorExpression right =
     rbind (Type right) (\<lambda>t.
       if t \<noteq> INTEGER then Ok (newError (''unknown operator: -'' @ ObjectType_String t))
       else rbind (as_Integer right) (\<lambda>i. Ok (Integer (- 1 * i))))"

definition evalPrefixExpression :: "string \<Rightarrow> obj \<Rightarrow> obj result" where
  "evalPrefixExpression operator right =
     (if operator = ''!'' then Ok (evalBangOperatorExpression right)
      else if operator = ''-'' then evalMinusPrefixOperatorExpression right
      else rbind (Type right) (\<lambda>t.
             Ok (newError (''unknown operator: '' @ operator @ ObjectType_String t))))"

definition unknown_operator :: "ObjectType \<Rightarrow> string \<Rightarrow> ObjectType \<Rightarrow> obj" where
  "unknown_operator lt operator rt =
     newError (''unknown operator: '' @ ObjectType_String lt @ '' '' @ operator @ '' ''
               @ ObjectType_String rt)"

definition evalStringInfixExpression :: "string \<Rightarrow> string \<Rightarrow> string \<Rightarrow> obj" where
  "evalStringInfixExpression operator left right =
     (if operator \<noteq> ''+'' then unknown_operator STRING operator STRING
      else String (left @ right))"

text \<open>
  \<open>int64\<close> arithmetic wraps; \<open>/\<close> truncates towards zero and panics on a zero divisor;
  the comparisons are signed.
\<close>

definition divide_by_zero :: string where
  "divide_by_zero = ''runtime error: integer divide by zero''"

definition evalIntegerInfixExpression :: "string \<Rightarrow> 64 word \<Rightarrow> 64 word \<Rightarrow> obj result" where
  "evalIntegerInfixExpression operator left right =
     (if operator = ''+'' then Ok (Integer (left + right))
      else if operator = ''-'' then Ok (Integer (left - right))
      else if operator = ''*'' then Ok (Integer (left * right))
      else if operator = ''/'' then
        (if right = 0 then Fault divide_by_zero
         else Ok (Integer (word_of_int (sint left sdiv sint right))))
      else if operator = ''<'' then Ok (Bool (sint left < sint right))
      else if operator = ''>'' then Ok (Bool (sint left > sint right))
      else if operator = ''=='' then Ok (Bool (left = right))
      else if operator = ''!='' then Ok (Bool (left \<noteq> right))
      else Ok (unknown_operator INTEGER operator INTEGER))"

definition evalFloatInfixExpression :: "host \<Rightarrow> string \<Rightarrow> 64 word \<Rightarrow> 64 word \<Rightarrow> obj" where
  "evalFloatInfixExpression h operator left right =
     (if operator = ''+'' then Float (float_add h left right)
      else if operator = ''-'' then Float (float_sub h left right)
      else if operator = ''*'' then Float (float_mul h left right)
      else if operator = ''/'' then Float (float_div h left right)
      else if operator = ''<'' then Bool (float_less h left right)
      else if operator = ''>'' then Bool (float_less h right left)
      else if operator = ''=='' then Bool (float_eq h left right)
      else if operator = ''!='' then Bool (\<not> float_eq h left right)
      else unknown_operator FLOAT operator FLOAT)"

definition evalInfixExpression :: "host \<Rightarrow> string \<Rightarrow> obj \<Rightarrow> obj \<Rightarrow> obj result" where
  "evalInfixExpression h operator left0 right0 =
     rbind (Type left0) (\<lambda>lt0. rbind (Type right0) (\<lambda>rt0.
     rbind (if lt0 = INTEGER \<and> rt0 = FLOAT
            then rbind (as_Integer left0) (\<lambda>i. Ok (Float (float_of_int64 h i), FLOAT))
            else Ok (left0, lt0)) (\<lambda>(left, lt).
     rbind (if \<not> (lt0 = INTEGER \<and> rt0 = FLOAT) \<and> lt0 = FLOAT \<and> rt0 = INTEGER
            then rbind (as_Integer right0) (\<lambda>i. Ok (Float (float_of_int64 h i), FLOAT))
            else Ok (right0, rt0)) (\<lambda>(right, rt).
       if lt = INTEGER \<and> rt = INTEGER then
         rbind (as_Integer left) (\<lambda>l. rbind (as_Integer right) (\<lambda>r.
           evalIntegerInfixExpression operator l r))
       else if lt = FLOAT \<and> rt = FLOAT then
         rbind (as_Float left) (\<lambda>l. rbind (as_Float right) (\<lambda>r.
           Ok (evalFloatInfixExpression h operator l r)))
       else if lt = STRING \<and> rt = STRING then
         rbind (as_String left) (\<lambda>l. rbind (as_String right) (\<lambda>r.
           Ok (evalStringInfixExpression operator l r)))
       else if operator = ''=='' then
         rbind (interface_eq h left right) (\<lambda>b. Ok (Bool b))
       else if operator = ''!='' then
         rbind (interface_eq h left right) (\<lambda>b. Ok (Bool (\<not> b)))
       else if lt \<noteq> rt then
         Ok (newError (''type mismatch: '' @ ObjectType_String lt @ '' '' @ operator @ '' ''
                       @ ObjectType_String rt))
       else Ok (unknown_operator lt operator rt)))))"

definition isTruthy :: "obj \<Rightarrow> bool" where
  "isTruthy obj =
     (if obj = Null then False
      else if obj = TRUE then True
      else if obj = FALSE then False
      else True)"

definition evalArrayIndexExpression :: "obj \<Rightarrow> obj \<Rightarrow> obj result" where
  "evalArrayIndexExpression array index =
     (case array of
        Array a arrayObject \<Rightarrow>
          rbind (as_Integer index) (\<lambda>idx.
            if sint idx < 0 \<or> sint idx > int (length arrayObject) - 1 then Ok Null
            else Ok (arrayObject ! nat (sint idx)))
      | _ \<Rightarrow> Fault conversion)"

definition evalHashIndexExpression :: "host \<Rightarrow> obj \<Rightarrow> obj \<Rightarrow> obj result" where
  "evalHashIndexExpression h hash index =
     (case hash of
        Hash hashObject \<Rightarrow>
          rbind (Hashable index) (\<lambda>hashable.
            if \<not> hashable then
              rbind (Type index) (\<lambda>t.
                Ok (newError (''unusable as hash key: '' @ ObjectType_String t)))
            else (case map_access h hashObject index of
                    None \<Rightarrow> Ok Null
                  | Some got \<Rightarrow> Ok got))
      | _ \<Rightarrow> Fault conversion)"

definition evalIndexExpression :: "host \<Rightarrow> obj \<Rightarrow> obj \<Rightarrow> obj result" where
  "evalIndexExpression h left index =
     rbind (Type left) (\<lambda>lt.
     rbind (if lt = ARRAY then rbind (Type index) (\<lambda>it. Ok (it = INTEGER)) else Ok False)
       (\<lambda>array_with_integer.
          if array_with_integer then evalArrayIndexExpression left index
          else if lt = HASH then evalHashIndexExpression h left index
          else Ok (newError (''index operator not supported: '' @ ObjectType_String lt))))"

definition unwrapReturnValue :: "obj \<Rightarrow> obj" where
  "unwrapReturnValue obj = (case obj of ReturnValue v \<Rightarrow> v | _ \<Rightarrow> obj)"

subsection \<open>The recursive part\<close>

text \<open>
  \<open>Eval\<close> and its helpers call one another. In the model each helper takes the evaluator
  that it calls back, \<open>ev\<close>, as an argument, and \<open>Eval\<close> itself is defined by recursion on
  fuel: one unit for every nesting of \<open>Eval\<close> calls.
\<close>

type_synonym evaluator = "node \<Rightarrow> nat \<Rightarrow> heap \<Rightarrow> obj outcome"

fun evalExpressions_loop ::
  "evaluator \<Rightarrow> expr list \<Rightarrow> nat \<Rightarrow> obj list \<Rightarrow> heap \<Rightarrow> obj list outcome" where
  "evalExpressions_loop ev [] env result st = Ret result st"
| "evalExpressions_loop ev (e # exps) env result st =
     seq (ev (Expression e) env st) (\<lambda>evaluated st'.
       if isError evaluated then Ret [evaluated] st'
       else evalExpressions_loop ev exps env (result @ [evaluated]) st')"

definition evalExpressions :: "evaluator \<Rightarrow> expr list \<Rightarrow> nat \<Rightarrow> heap \<Rightarrow> obj list outcome"
  where
  "evalExpressions ev exps env st = evalExpressions_loop ev exps env [] st"

fun decimal :: "nat \<Rightarrow> string" where
  "decimal n =
     (if n < 10 then [''0123456789'' ! n]
      else decimal (n div 10) @ [''0123456789'' ! (n mod 10)])"

declare decimal.simps [simp del]

definition index_out_of_range :: "nat \<Rightarrow> nat \<Rightarrow> string" where
  "index_out_of_range i n =
     ''runtime error: index out of range ['' @ decimal i @ ''] with length '' @ decimal n"

fun extendFunctionEnv_loop ::
  "string list \<Rightarrow> nat \<Rightarrow> obj list \<Rightarrow> nat \<Rightarrow> heap \<Rightarrow> nat outcome" where
  "extendFunctionEnv_loop [] paramIdx args env st = Ret env st"
| "extendFunctionEnv_loop (param # params) paramIdx args env st =
     (if paramIdx < length args
      then extendFunctionEnv_loop params (Suc paramIdx) args env
             (Environment_Set st env param (args ! paramIdx))
      else Panic (index_out_of_range paramIdx (length args)) st)"

text \<open>\<open>extendFunctionEnv\<close>, given the \<open>Parameters\<close> and the \<open>Env\<close> of the function.\<close>

definition extendFunctionEnv :: "string list \<Rightarrow> nat \<Rightarrow> obj list \<Rightarrow> heap \<Rightarrow> nat outcome"
  where
  "extendFunctionEnv params fn_env args st =
     (case NewEnclosedEnvironment fn_env st of
        (env, st') \<Rightarrow> extendFunctionEnv_loop params 0 args env st')"

definition applyFunction :: "host \<Rightarrow> evaluator \<Rightarrow> obj \<Rightarrow> obj list \<Rightarrow> heap \<Rightarrow> obj outcome"
  where
  "applyFunction h ev fn args st =
     (case fn of
        Function a params body fn_env \<Rightarrow>
          seq (extendFunctionEnv params fn_env args st) (\<lambda>extendedEnv st1.
          seq (ev (BlockStatement body) extendedEnv st1) (\<lambda>evaluated st2.
            Ret (unwrapReturnValue evaluated) st2))
      | Builtin name \<Rightarrow>
          Ret (builtin_Fn h name args (next_addr st)) (st\<lparr>next_addr := Suc (next_addr st)\<rparr>)
      | _ \<Rightarrow>
          lift (rbind (Type fn) (\<lambda>t.
                  Ok (newError (''not a function: '' @ ObjectType_String t)))) st)"

definition evalIdentifier :: "host \<Rightarrow> string \<Rightarrow> nat \<Rightarrow> heap \<Rightarrow> obj outcome" where
  "evalIdentifier h name env st =
     (case Environment_Get st env name of
        None \<Rightarrow> Timeout
      | Some (val, ok) \<Rightarrow>
          if ok then Ret val st
          else if builtin_table h name then Ret (Builtin name) st
          else Ret (newError (''identifier not found: '' @ name)) st)"

fun evalProgram_loop :: "evaluator \<Rightarrow> stmt list \<Rightarrow> nat \<Rightarrow> obj \<Rightarrow> heap \<Rightarrow> obj outcome"
  where
  "evalProgram_loop ev [] env result st = Ret result st"
| "evalProgram_loop ev (statement # stmts) env result st =
     seq (ev (Statement statement) env st) (\<lambda>result' st'.
       case result' of
         ReturnValue v \<Rightarrow> Ret v st'
       | Error e \<Rightarrow> Ret result' st'
       | _ \<Rightarrow> evalProgram_loop ev stmts env result' st')"

definition evalProgram :: "evaluator \<Rightarrow> stmt list \<Rightarrow> nat \<Rightarrow> heap \<Rightarrow> obj outcome" where
  "evalProgram ev stmts env st = evalProgram_loop ev stmts env Nil_Object st"

fun evalBlockStatement_loop ::
  "evaluator \<Rightarrow> stmt list \<Rightarrow> nat \<Rightarrow> obj \<Rightarrow> heap \<Rightarrow> obj outcome" where
  "evalBlockStatement_loop ev [] env result st = Ret result st"
| "evalBlockStatement_loop ev (statement # stmts) env result st =
     seq (ev (Statement statement) env st) (\<lambda>result' st'.
       if result' \<noteq> Nil_Object
          \<and> (Type result' = Ok RETURN_VALUE \<or> Type result' = Ok ERROR)
       then Ret result' st'
       else evalBlockStatement_loop ev stmts env result' st')"

definition evalBlockStatement :: "evaluator \<Rightarrow> stmt list \<Rightarrow> nat \<Rightarrow> heap \<Rightarrow> obj outcome"
  where
  "evalBlockStatement ev stmts env st = evalBlockStatement_loop ev stmts env Nil_Object st"

definition evalIfExpression ::
  "evaluator \<Rightarrow> expr \<Rightarrow> stmt list \<Rightarrow> stmt list option \<Rightarrow> nat \<Rightarrow> heap \<Rightarrow> obj outcome"
  where
  "evalIfExpression ev cond consequence alternative env st =
     seq (ev (Expression cond) env st) (\<lambda>condition st'.
       if isError condition then Ret condition st'
       else if isTruthy condition then ev (BlockStatement consequence) env st'
       else (case alternative of
               Some alt \<Rightarrow> ev (BlockStatement alt) env st'
             | None \<Rightarrow> Ret Null st'))"

fun evalHashLiteral_loop ::
  "host \<Rightarrow> evaluator \<Rightarrow> (expr \<times> expr) list \<Rightarrow> nat \<Rightarrow> (obj \<times> obj) list \<Rightarrow> heap
   \<Rightarrow> obj outcome" where
  "evalHashLiteral_loop h ev [] env m st = Ret (Hash m) st"
| "evalHashLiteral_loop h ev ((keyNode, valueNode) # pairs) env m st =
     seq (ev (Expression keyNode) env st) (\<lambda>key st1.
       if isError key then Ret key st1
       else seq (ev (Expression valueNode) env st1) (\<lambda>val st2.
         if isError val then Ret val st2
         else seq (lift (map_assign h m key val) st2) (\<lambda>m' st3.
           evalHashLiteral_loop h ev pairs env m' st3)))"

text \<open>
  The deferred function of \<open>evalHashLiteral\<close> recovers every panic raised below it and
  makes it the result \<open>unhashable key: ...\<close>.
\<close>

definition evalHashLiteral ::
  "host \<Rightarrow> evaluator \<Rightarrow> (expr \<times> expr) list \<Rightarrow> nat \<Rightarrow> heap \<Rightarrow> obj outcome" where
  "evalHashLiteral h ev pairs env st =
     (case evalHashLiteral_loop h ev pairs env [] st of
        Panic r st' \<Rightarrow> Ret (newError (''unhashable key: '' @ r)) st'
      | other \<Rightarrow> other)"

primrec Eval :: "host \<Rightarrow> nat \<Rightarrow> node \<Rightarrow> nat \<Rightarrow> heap \<Rightarrow> obj outcome" where
  "Eval h 0 = (\<lambda>node env st. Timeout)"
| "Eval h (Suc n) = (\<lambda>node env st.
     case node of
       Program stmts \<Rightarrow> evalProgram (Eval h n) stmts env st
     | Statement (ExpressionStatement e) \<Rightarrow> Eval h n (Expression e) env st
     | BlockStatement stmts \<Rightarrow> evalBlockStatement (Eval h n) stmts env st
     | Statement (LetStatement name rhs) \<Rightarrow>
         seq (Eval h n (Expression rhs) env st) (\<lambda>val st'.
           if isError val then Ret val st'
           else Ret Nil_Object (Environment_Set st' env name val))
     | Statement (ReturnStatement e) \<Rightarrow>
         seq (Eval h n (Expression e) env st) (\<lambda>val st'.
           if isError val then Ret val st' else Ret (ReturnValue val) st')
     | Expression (IntegerLiteral i) \<Rightarrow> Ret (Integer i) st
     | Expression (FloatLiteral f) \<Rightarrow> Ret (Float f) st
     | Expression (StringLiteral s) \<Rightarrow> Ret (String s) st
     | Expression (FunctionLiteral params body) \<Rightarrow>
         Ret (Function (next_addr st) params body env) (st\<lparr>next_addr := Suc (next_addr st)\<rparr>)
     | Expression (ArrayLiteral elems) \<Rightarrow>
         seq (evalExpressions (Eval h n) elems env st) (\<lambda>elements st'.
           if length elements = 1 \<and> isError (elements ! 0) then Ret (elements ! 0) st'
           else Ret (Array (next_addr st') elements) (st'\<lparr>next_addr := Suc (next_addr st')\<rparr>))
     | Expression (BoolLiteral b) \<Rightarrow> Ret (Bool b) st
     | Expression (Identifier name) \<Rightarrow> evalIdentifier h name env st
     | Expression (PrefixExpression operator r) \<Rightarrow>
         seq (Eval h n (Expression r) env st) (\<lambda>right st'.
           if isError right then Ret right st'
           else lift (evalPrefixExpression operator right) st')
     | Expression (InfixExpression operator l r) \<Rightarrow>
         seq (Eval h n (Expression l) env st) (\<lambda>left st1.
           if isError left then Ret left st1
           else seq (Eval h n (Expression r) env st1) (\<lambda>right st2.
             if isError right then Ret right st2
             else lift (evalInfixExpression h operator left right) st2))
     | Expression (IfExpression cond consequence alternative) \<Rightarrow>
         evalIfExpression (Eval h n) cond consequence alternative env st
     | Expression (CallExpression f arguments) \<Rightarrow>
         seq (Eval h n (Expression f) env st) (\<lambda>function st1.
           if isError function then Ret function st1
           else seq (evalExpressions (Eval h n) arguments env st1) (\<lambda>args st2.
             if length args = 1 \<and> isError (args ! 0) then Ret (args ! 0) st2
             else applyFunction h (Eval h n) function args st2))
     | Expression (IndexExpression l i) \<Rightarrow>
         seq (Eval h n (Expression l) env st) (\<lambda>left st1.
           if isError left then Ret left st1
           else seq (Eval h n (Expression i) env st1) (\<lambda>index st2.
             if isError index then Ret index st2
             else lift (evalIndexExpression h left index) st2))
     | Expression (HashLiteral pairs) \<Rightarrow> evalHashLiteral h (Eval h n) pairs env st)"

section \<open>Inspect\<close>

text \<open>\<open>fmt.Sprintf("%d", i)\<close> for an \<open>int64\<close>.\<close>

definition format_d :: "64 word \<Rightarrow> string" where
  "format_d i =
     (if sint i < 0 then ''-'' @ decimal (nat (- sint i)) else decimal (nat (sint i)))"

fun Function_Inspect_params :: "host \<Rightarrow> nat \<Rightarrow> string list \<Rightarrow> string" where
  "Function_Inspect_params h i [] = []"
| "Function_Inspect_params h i (p # ps) =
     (if i > 0 then '', '' else []) @ ast_String h (Expression (Identifier p))
     @ Function_Inspect_params h (Suc i) ps"

text \<open>
  The method \<open>Inspect\<close> of every implementing type, with the loops of \<open>Array.Inspect\<close> and
  \<open>Hash.Inspect\<close>; the loops return what they write to the builder. A \<open>Hash\<close> is visited
  in the order of its entry list.
\<close>

function (sequential) Inspect :: "host \<Rightarrow> obj \<Rightarrow> string result"
and Array_Inspect_loop :: "host \<Rightarrow> nat \<Rightarrow> obj list \<Rightarrow> string result"
and Hash_Inspect_loop :: "host \<Rightarrow> (obj \<times> obj) list \<Rightarrow> string result" where
  "Inspect h Nil_Object = Fault nil_dereference"
| "Inspect h (Integer i) = Ok (format_d i)"
| "Inspect h (Float f) = Ok (float_format h f)"
| "Inspect h (Bool b) = Ok (if b then ''true'' else ''false'')"
| "Inspect h (String s) = Ok s"
| "Inspect h Null = Ok ''NULL''"
| "Inspect h (Error e) = Ok e"
| "Inspect h (Function a ps body env) =
     Ok (''fn'' @ ''('' @ Function_Inspect_params h 0 ps @ '') {'' @ [CHR 0x0A]
         @ ast_String h (BlockStatement body) @ [CHR 0x0A] @ ''}'')"
| "Inspect h (Builtin name) = Ok ''builtin function''"
| "Inspect h (Array a ao) =
     rbind (Array_Inspect_loop h 0 ao) (\<lambda>written. Ok (''['' @ written @ '']''))"
| "Inspect h (Hash m) =
     rbind (Hash_Inspect_loop h m) (\<lambda>written. Ok (''{'' @ written @ ''}''))"
| "Inspect h (ReturnValue v) = Inspect h v"
| "Array_Inspect_loop h i [] = Ok []"
| "Array_Inspect_loop h i (e # es) =
     rbind (Inspect h e) (\<lambda>s.
     rbind (Array_Inspect_loop h (Suc i) es) (\<lambda>rest.
       Ok ((if i > 0 then '', '' else []) @ s @ rest)))"
| "Hash_Inspect_loop h [] = Ok []"
| "Hash_Inspect_loop h ((k, v) # m) =
     rbind (Inspect h k) (\<lambda>ks.
     rbind (Inspect h v) (\<lambda>vs.
     rbind (Hash_Inspect_loop h m) (\<lambda>rest.
       Ok (ks @ '': '' @ vs @ rest))))"
  by pat_completeness auto

termination
  by (relation "measure (\<lambda>x. case x of
          Inl (h, v) \<Rightarrow> 2 * size v
        | Inr (Inl (h, i, es)) \<Rightarrow> 2 * size_list size es + 1
        | Inr (Inr (h, m)) \<Rightarrow> 2 * size_list (size_prod size size) m + 1)")
     auto

section \<open>The lexer (package lexer)\<close>

text \<open>
  Modelled from the spec: the package \<open>token\<close> is not among the sources. The token kinds
  are those of the data model; \<open>LookupIdent\<close> maps the seven keywords to their kinds and
  every other literal to \<open>IDENT\<close>.
\<close>

datatype TokenType =
    token_ILLEGAL | token_EOF | token_IDENT | token_INT | token_FLOAT | token_STRING
  | token_ASSIGN | token_PLUS | token_MINUS | token_BANG | token_STAR | token_SLASH
  | token_LT | token_GT | token_EQ | token_NEQ | token_COMMA | token_SEMICOLON | token_COLON
  | token_LPAREN | token_RPAREN | token_LBRACE | token_RBRACE | token_LBRACKET
  | token_RBRACKET | token_FUNCTION | token_LET | token_TRUE | token_FALSE | token_IF
  | token_ELSE | token_RETURN

datatype token = Token TokenType string

definition LookupIdent :: "string \<Rightarrow> TokenType" where
  "LookupIdent lit =
     (if lit = ''fn'' then token_FUNCTION
      else if lit = ''let'' then token_LET
      else if lit = ''true'' then token_TRUE
      else if lit = ''false'' then token_FALSE
      else if lit = ''if'' then token_IF
      else if lit = ''else'' then token_ELSE
      else if lit = ''return'' then token_RETURN
      else token_IDENT)"

subsection \<open>Runes\<close>

text \<open>
  A rune is a code point, a natural number. \<open>DecodeRuneInString\<close> is the function of the
  Go library: the first rune of a UTF-8 string and its width in bytes, \<open>(RuneError, 0)\<close>
  for the empty string and \<open>(RuneError, 1)\<close> for an invalid encoding.
\<close>

definition RuneError :: nat where
  "RuneError = 0xFFFD"

definition between :: "nat \<Rightarrow> nat \<Rightarrow> nat \<Rightarrow> bool" where
  "between lo hi b = (lo \<le> b \<and> b \<le> hi)"

definition DecodeRuneInString :: "string \<Rightarrow> nat \<times> nat" where
  "DecodeRuneInString s =
     (case map of_char s of
        [] \<Rightarrow> (RuneError, 0)
      | b0 # rest \<Rightarrow>
          if b0 < 0x80 then (b0, 1)
          else if between 0xC2 0xDF b0 then
            (case rest of
               b1 # _ \<Rightarrow>
                 if between 0x80 0xBF b1 then ((b0 mod 32) * 64 + b1 mod 64, 2)
                 else (RuneError, 1)
             | _ \<Rightarrow> (RuneError, 1))
          else if between 0xE0 0xEF b0 then
            (case rest of
               b1 # b2 # _ \<Rightarrow>
                 if between (if b0 = 0xE0 then 0xA0 else 0x80) (if b0 = 0xED then 0x9F else 0xBF) b1
                    \<and> between 0x80 0xBF b2
                 then (((b0 mod 16) * 64 + b1 mod 64) * 64 + b2 mod 64, 3)
                 else (RuneError, 1)
             | _ \<Rightarrow> (RuneError, 1))
          else if between 0xF0 0xF4 b0 then
            (case rest of
               b1 # b2 # b3 # _ \<Rightarrow>
                 if between (if b0 = 0xF0 then 0x90 else 0x80) (if b0 = 0xF4 then 0x8F else 0xBF) b1
                    \<and> between 0x80 0xBF b2 \<and> between 0x80 0xBF b3
                 then ((((b0 mod 8) * 64 + b1 mod 64) * 64 + b2 mod 64) * 64 + b3 mod 64, 4)
                 else (RuneError, 1)
             | _ \<Rightarrow> (RuneError, 1))
          else (RuneError, 1))"

text \<open>
  \<open>unicode.IsLetter\<close>, \<open>unicode.IsDigit\<close> and \<open>unicode.IsSpace\<close>: written out for the
  runes up to U+00FF, where the Go library uses a fixed table; above that they consult the
  Unicode tables, which are a parameter.
\<close>

record unicode =
  Letter :: "nat \<Rightarrow> bool"
  Digit :: "nat \<Rightarrow> bool"
  White_Space :: "nat \<Rightarrow> bool"

definition IsLetter :: "unicode \<Rightarrow> nat \<Rightarrow> bool" where
  "IsLetter U r =
     (if r \<le> 0xFF then
        between 0x41 0x5A r \<or> between 0x61 0x7A r \<or> r = 0xAA \<or> r = 0xB5 \<or> r = 0xBA
        \<or> between 0xC0 0xD6 r \<or> between 0xD8 0xF6 r \<or> between 0xF8 0xFF r
      else Letter U r)"

definition IsDigit :: "unicode \<Rightarrow> nat \<Rightarrow> bool" where
  "IsDigit U r = (if r \<le> 0xFF then between 0x30 0x39 r else Digit U r)"

definition IsSpace :: "unicode \<Rightarrow> nat \<Rightarrow> bool" where
  "IsSpace U r =
     (if r \<le> 0xFF then between 0x09 0x0D r \<or> r = 0x20 \<or> r = 0x85 \<or> r = 0xA0
      else White_Space U r)"

definition isLetter :: "unicode \<Rightarrow> nat \<Rightarrow> bool" where
  "isLetter U r = (IsLetter U r \<or> r = of_char CHR ''_'')"

definition isDecimal :: "unicode \<Rightarrow> nat \<Rightarrow> bool" where
  "isDecimal U r = IsDigit U r"

subsection \<open>The state and its methods\<close>

datatype lex_error =
    DecodeFailed nat
  | IllegalToken string nat
  | IllegalAfterDot nat nat
  | UnterminatedString nat nat

record state =
  input :: string
  tokPos :: nat
  rune :: nat
  runeSize :: nat
  runePos :: nat
  peeked :: bool
  peekRune :: nat
  peekSize :: nat
  readPos :: nat

definition initState :: "string \<Rightarrow> state" where
  "initState inp =
     \<lparr>input = inp, tokPos = 0, rune = 0, runeSize = 0, runePos = 0, peeked = False,
      peekRune = 0, peekSize = 0, readPos = 0\<rparr>"

text \<open>The slice \<open>s[lo:hi]\<close> of a string, for \<open>lo \<le> hi \<le> len(s)\<close>.\<close>

definition slice :: "string \<Rightarrow> nat \<Rightarrow> nat \<Rightarrow> string" where
  "slice s lo hi = take (hi - lo) (drop lo s)"

definition peek :: "state \<Rightarrow> (nat \<times> lex_error option) \<times> state" where
  "peek s =
     (if peeked s then ((peekRune s, None), s)
      else if readPos s \<ge> length (input s) then ((0, None), s)
      else (case DecodeRuneInString (drop (readPos s) (input s)) of
              (r, width) \<Rightarrow>
                (if r = RuneError then (RuneError, Some (DecodeFailed (readPos s)))
                 else (r, None),
                 s\<lparr>peekRune := r, peekSize := width, peeked := True\<rparr>)))"

definition readRune :: "state \<Rightarrow> (nat \<times> lex_error option) \<times> state" where
  "readRune s =
     (case peek s of
        ((p, Some err), s') \<Rightarrow> ((p, Some err), s')
      | ((p, None), s') \<Rightarrow>
          peek (s'\<lparr>rune := peekRune s', runePos := readPos s',
                   readPos := readPos s' + peekSize s', runeSize := peekSize s',
                   peeked := False, peekRune := 0, peekSize := 0\<rparr>))"

definition curLit :: "state \<Rightarrow> string" where
  "curLit s = slice (input s) (tokPos s) (readPos s)"

definition reset :: "state \<Rightarrow> state" where
  "reset s = s\<lparr>tokPos := readPos s, runePos := readPos s, runeSize := 0, rune := 0\<rparr>"

text \<open>
  The loops of the lexer read runes until a test fails. They are partial functions of the
  state: \<open>None\<close> stands for a loop that does not end.
\<close>

partial_function (option) readWhitespace_loop ::
  "unicode \<Rightarrow> nat \<Rightarrow> lex_error option \<Rightarrow> state \<Rightarrow> ((nat \<times> lex_error option) \<times> state) option"
  where
  "readWhitespace_loop U next err s =
     (if err = None \<and> IsSpace U next
      then (case readRune s of ((next', err'), s') \<Rightarrow> readWhitespace_loop U next' err' s')
      else Some ((next, err), s))"

definition readWhitespace :: "unicode \<Rightarrow> state \<Rightarrow> ((nat \<times> lex_error option) \<times> state) option"
  where
  "readWhitespace U s = (case peek s of ((next, err), s') \<Rightarrow> readWhitespace_loop U next err s')"

definition skipWhitespace :: "unicode \<Rightarrow> state \<Rightarrow> ((nat \<times> lex_error option) \<times> state) option"
  where
  "skipWhitespace U s =
     (case readWhitespace U s of
        None \<Rightarrow> None
      | Some ((next, err), s') \<Rightarrow> Some ((next, err), if err = None then reset s' else s'))"

partial_function (option) readDecimals_loop ::
  "unicode \<Rightarrow> nat \<Rightarrow> lex_error option \<Rightarrow> state \<Rightarrow> ((nat \<times> lex_error option) \<times> state) option"
  where
  "readDecimals_loop U next err s =
     (if err = None \<and> isDecimal U next
      then (case readRune s of ((next', err'), s') \<Rightarrow> readDecimals_loop U next' err' s')
      else Some ((next, err), s))"

definition readDecimals :: "unicode \<Rightarrow> state \<Rightarrow> ((nat \<times> lex_error option) \<times> state) option"
  where
  "readDecimals U s = (case peek s of ((next, err), s') \<Rightarrow> readDecimals_loop U next err s')"


partial_function (option) lexIdentifier_loop ::
  "unicode \<Rightarrow> nat \<Rightarrow> lex_error option \<Rightarrow> state \<Rightarrow> ((nat \<times> lex_error option) \<times> state) option"
  where
  "lexIdentifier_loop U next err s =
     (if err = None \<and> isLetter U next
      then (case readRune s of ((next', err'), s') \<Rightarrow> lexIdentifier_loop U next' err' s')
      else Some ((next, err), s))"

declare readWhitespace_loop.simps [code]
declare readDecimals_loop.simps [code]
declare lexIdentifier_loop.simps [code]

subsection \<open>The lexing functions\<close>

text \<open>
  A \<open>lexFunc\<close> returns a token or an error, and the state it leaves; \<open>Inl\<close> is the error.
\<close>

type_synonym lexFunc = "state \<Rightarrow> ((lex_error + token) \<times> state) option"

definition lexIdentifier :: "unicode \<Rightarrow> lexFunc" where
  "lexIdentifier U s =
     (case peek s of
        ((next, err), s0) \<Rightarrow>
          (case lexIdentifier_loop U next err s0 of
             None \<Rightarrow> None
           | Some ((next', Some e), s') \<Rightarrow> Some (Inl e, s')
           | Some ((next', None), s') \<Rightarrow>
               Some (Inr (Token (LookupIdent (curLit s')) (curLit s')), s')))"

text \<open>
  \<open>lexNumber\<close> in three steps: the leading digits, the block \<open>if next == '.'\<close> and the
  block \<open>if next == 'e' || next == 'E'\<close>. Each block returns the \<open>next\<close> and the \<open>typ\<close>
  that it leaves, or the error that it returns.
\<close>

definition lexNumber_fraction ::
  "unicode \<Rightarrow> nat \<Rightarrow> TokenType \<Rightarrow> state
   \<Rightarrow> ((lex_error + nat \<times> TokenType) \<times> state) option" where
  "lexNumber_fraction U next typ s =
     (if next = of_char CHR ''.'' then
        (case readRune s of
           ((next1, Some e), s1) \<Rightarrow> Some (Inl e, s1)
         | ((next1, None), s1) \<Rightarrow>
             if \<not> isDecimal U next1 then Some (Inl (IllegalAfterDot next1 (readPos s1)), s1)
             else (case readDecimals U s1 of
                     None \<Rightarrow> None
                   | Some ((next2, Some e), s2) \<Rightarrow> Some (Inl e, s2)
                   | Some ((next2, None), s2) \<Rightarrow> Some (Inr (next2, token_FLOAT), s2)))
      else Some (Inr (next, typ), s))"

definition lexNumber_exponent ::
  "unicode \<Rightarrow> nat \<Rightarrow> TokenType \<Rightarrow> state \<Rightarrow> ((lex_error + TokenType) \<times> state) option" where
  "lexNumber_exponent U next typ s =
     (if next = of_char CHR ''e'' \<or> next = of_char CHR ''E'' then
        (case readRune s of
           ((next1, Some e), s1) \<Rightarrow> Some (Inl e, s1)
         | ((next1, None), s1) \<Rightarrow>
             (case (if next1 = of_char CHR ''+'' \<or> next1 = of_char CHR ''-''
                    then readRune s1 else ((next1, None), s1)) of
                ((next2, Some e), s2) \<Rightarrow> Some (Inl e, s2)
              | ((next2, None), s2) \<Rightarrow>
                  (case readDecimals U s2 of
                     None \<Rightarrow> None
                   | Some ((next3, Some e), s3) \<Rightarrow> Some (Inl e, s3)
                   | Some ((next3, None), s3) \<Rightarrow> Some (Inr token_FLOAT, s3))))
      else Some (Inr typ, s))"

definition lexNumber :: "unicode \<Rightarrow> lexFunc" where
  "lexNumber U s =
     (case readDecimals U s of
        None \<Rightarrow> None
      | Some ((next, err), s0) \<Rightarrow>
          (case lexNumber_fraction U next token_INT s0 of
             None \<Rightarrow> None
           | Some (Inl e, s1) \<Rightarrow> Some (Inl e, s1)
           | Some (Inr (next1, typ1), s1) \<Rightarrow>
               (case lexNumber_exponent U next1 typ1 s1 of
                  None \<Rightarrow> None
                | Some (Inl e, s2) \<Rightarrow> Some (Inl e, s2)
                | Some (Inr typ2, s2) \<Rightarrow> Some (Inr (Token typ2 (curLit s2)), s2))))"

partial_function (option) lexString :: "state \<Rightarrow> ((lex_error + token) \<times> state) option" where
  "lexString s =
     (case readRune s of
        ((next, Some e), s1) \<Rightarrow> Some (Inl e, s1)
      | ((next, None), s1) \<Rightarrow>
          if next = 0 then Some (Inl (UnterminatedString (tokPos s1) (readPos s1)), s1)
          else if next = of_char CHR 0x22 then
            (case readRune s1 of
               ((next2, Some e), s2) \<Rightarrow> Some (Inl e, s2)
             | ((next2, None), s2) \<Rightarrow>
                 Some (Inr (Token token_STRING (slice (input s2) (tokPos s2 + 1) (runePos s2))),
                       s2))
          else lexString s1)"

declare lexString.simps [code]

definition litTok :: "TokenType \<Rightarrow> lexFunc" where
  "litTok typ s = Some (Inr (Token typ (curLit s)), s)"

definition eat :: "lexFunc \<Rightarrow> lexFunc" where
  "eat f s = f (snd (readRune s))"

definition nextTok :: "TokenType \<Rightarrow> lexFunc" where
  "nextTok typ = eat (litTok typ)"

text \<open>The functions registered for \<open>=\<close> and \<open>!\<close>: one rune of lookahead.\<close>

definition lexTwo :: "TokenType \<Rightarrow> TokenType \<Rightarrow> lexFunc" where
  "lexTwo two one s =
     (case readRune s of
        ((next, Some e), s') \<Rightarrow> Some (Inl e, s')
      | ((next, None), s') \<Rightarrow>
          if next = of_char CHR ''='' then nextTok two s' else litTok one s')"

definition lexFuncs :: "nat \<Rightarrow> lexFunc option" where
  "lexFuncs r =
     (if r = of_char CHR ''+'' then Some (nextTok token_PLUS)
      else if r = of_char CHR ''-'' then Some (nextTok token_MINUS)
      else if r = of_char CHR ''/'' then Some (nextTok token_SLASH)
      else if r = of_char CHR ''*'' then Some (nextTok token_STAR)
      else if r = of_char CHR ''<'' then Some (nextTok token_LT)
      else if r = of_char CHR ''>'' then Some (nextTok token_GT)
      else if r = of_char CHR '';'' then Some (nextTok token_SEMICOLON)
      else if r = of_char CHR '','' then Some (nextTok token_COMMA)
      else if r = of_char CHR ''('' then Some (nextTok token_LPAREN)
      else if r = of_char CHR '')'' then Some (nextTok token_RPAREN)
      else if r = of_char CHR ''{'' then Some (nextTok token_LBRACE)
      else if r = of_char CHR ''}'' then Some (nextTok token_RBRACE)
      else if r = of_char CHR ''['' then Some (nextTok token_LBRACKET)
      else if r = of_char CHR '']'' then Some (nextTok token_RBRACKET)
      else if r = of_char CHR '':'' then Some (nextTok token_COLON)
      else if r = of_char CHR 0x22 then Some lexString
      else if r = 0 then Some (\<lambda>s. Some (Inr (Token token_EOF []), s))
      else if r = of_char CHR ''='' then Some (lexTwo token_EQ token_ASSIGN)
      else if r = of_char CHR ''!'' then Some (lexTwo token_NEQ token_BANG)
      else None)"

definition lexDefault :: "unicode \<Rightarrow> lexFunc" where
  "lexDefault U s =
     (case peek s of
        ((next, err), s') \<Rightarrow>
          if isLetter U next then lexIdentifier U s'
          else if next = of_char CHR ''.'' \<or> isDecimal U next then lexNumber U s'
          else Some (Inl (IllegalToken (curLit s') (tokPos s')), s'))"

definition lexNext :: "unicode \<Rightarrow> lexFunc" where
  "lexNext U s =
     (case skipWhitespace U s of
        None \<Rightarrow> None
      | Some ((next, Some e), s') \<Rightarrow> Some (Inl e, s')
      | Some ((next, None), s') \<Rightarrow>
          (case lexFuncs next of
             Some f \<Rightarrow> f s'
           | None \<Rightarrow> lexDefault U s'))"

section \<open>Inputs for the examples\<close>

text \<open>
  A host without builtins. The examples below use no float and print no syntax tree, so
  these fields are placeholders.
\<close>

definition plain_host :: host where
  "plain_host =
     \<lparr>builtin_table = (\<lambda>name. False), builtin_Fn = (\<lambda>name args a. Null),
      ast_String = (\<lambda>node. []), float_of_int64 = (\<lambda>i. i),
      float_add = (\<lambda>a b. a), float_sub = (\<lambda>a b. a), float_mul = (\<lambda>a b. a),
      float_div = (\<lambda>a b. a), float_less = (\<lambda>a b. False), float_eq = (\<lambda>a b. a = b),
      float_format = (\<lambda>f. [])\<rparr>"

text \<open>The heap after \<open>NewEnvironment\<close> has returned the top-level environment, address 0.\<close>

definition fresh_heap :: heap where
  "fresh_heap = \<lparr>envs = (\<lambda>a. \<lparr>store = Map.empty, parent = None\<rparr>), next_addr = 1\<rparr>"

text \<open>What a finished call has returned, without the heap.\<close>

fun returned :: "'a outcome \<Rightarrow> 'a result option" where
  "returned (Ret v st) = Some (Ok v)"
| "returned (Panic m st) = Some (Fault m)"
| "returned Timeout = None"

section \<open>Auxiliary notions for the statements below\<close>

text \<open>
  These two functions are not part of the program. \<open>ends_loop r\<close> says that the result
  \<open>r\<close> of a statement makes the loops of \<open>evalProgram\<close> and \<open>evalBlockStatement\<close> return
  at once. \<open>falls_through ev stmts env st\<close> is the heap after the statements, when each
  of them returns a result that does not end the loop, so that the loop reaches what
  follows them.
\<close>

definition ends_loop :: "obj \<Rightarrow> bool" where
  "ends_loop r = (case r of ReturnValue v \<Rightarrow> True | Error e \<Rightarrow> True | _ \<Rightarrow> False)"

fun falls_through :: "evaluator \<Rightarrow> stmt list \<Rightarrow> nat \<Rightarrow> heap \<Rightarrow> heap option" where
  "falls_through ev [] env st = Some st"
| "falls_through ev (statement # stmts) env st =
     (case ev (Statement statement) env st of
        Ret r st' \<Rightarrow> if ends_loop r then None else falls_through ev stmts env st'
      | _ \<Rightarrow> None)"

section \<open>Properties\<close>

lemmas lexer_defs =
  lexNext_def skipWhitespace_def readWhitespace_def readWhitespace_loop.simps peek_def
  initState_def DecodeRuneInString_def IsSpace_def between_def RuneError_def reset_def
  lexFuncs_def lexDefault_def isLetter_def IsLetter_def isDecimal_def IsDigit_def
  lexNumber_def readDecimals_def readDecimals_loop.simps readRune_def
  lexNumber_fraction_def lexNumber_exponent_def curLit_def slice_def

lemmas eval_defs =
  evalHashLiteral_def evalExpressions_def isError_def map_assign_def newError_def
  evalIfExpression_def isTruthy_def evalBlockStatement_def evalProgram_def

subsection \<open>The lexer on numbers\<close>

text \<open>
  Claim C6. The numeric grammar asks for at least one digit after an exponent marker, so
  that \<open>1e\<close> is not a number. \<open>lexNumber\<close> checks for a digit after the \<open>.\<close> but not after
  the \<open>e\<close>: on the input \<open>1e\<close> the lexer returns the token \<open>FLOAT\<close> with the literal
  \<open>1e\<close> and no error, whatever the Unicode tables are; on \<open>1.\<close> it returns the error of
  the sibling branch.
\<close>

theorem exponent_without_digits_lexes_as_float:
  "map_option fst (lexNext U (initState ''1e'')) = Some (Inr (Token token_FLOAT ''1e''))
   \<and> map_option fst (lexNext U (initState ''1.'')) = Some (Inl (IllegalAfterDot 0 2))"
  by (simp add: lexer_defs)

subsection \<open>Inspect of a hash\<close>

text \<open>
  Claim C7. The inspect string of a \<open>Hash\<close> should join its pairs with a comma and a
  space. \<open>Hash.Inspect\<close> writes the pairs one after the other with nothing in between,
  unlike \<open>Array.Inspect\<close>, which writes the separator before every element but the first:
  the hash with the entries \<open>1: 2\<close> and \<open>3: 4\<close>, visited in this order, prints as
  \<open>{1: 23: 4}\<close>.
\<close>

theorem hash_inspect_has_no_separator:
  "Inspect h (Hash [(Integer 1, Integer 2), (Integer 3, Integer 4)]) = Ok ''{1: 23: 4}''
   \<and> Inspect h (Array a [Integer 1, Integer 2]) = Ok ''[1, 2]''"
  by (simp add: format_d_def decimal.simps)

subsection \<open>Hash keys\<close>

text \<open>
  Claim C5. A hash literal whose key is not \<open>Hashable\<close> should yield an \<open>Error\<close>.
  \<open>evalHashLiteral\<close> never calls \<open>Hashable\<close>: it relies on the panic of the Go map, which
  is raised for a key of type \<open>Hash\<close> only. A literal with an array, a function, a float
  or \<open>Null\<close> as its key evaluates to a \<open>Hash\<close> holding that key, although \<open>Hashable\<close> is
  false for each of them and the index expression rejects them.
\<close>

theorem hash_literal_accepts_unhashable_keys:
  "returned (Eval h 3 (Expression (HashLiteral [(ArrayLiteral [], IntegerLiteral 1)])) env st)
     = Some (Ok (Hash [(Array (next_addr st) [], Integer 1)]))
   \<and> returned (Eval h 3 (Expression (HashLiteral [(FunctionLiteral [] [], IntegerLiteral 1)]))
        env st)
     = Some (Ok (Hash [(Function (next_addr st) [] [] env, Integer 1)]))
   \<and> returned (Eval h 3 (Expression (HashLiteral [(FloatLiteral f, IntegerLiteral 1)])) env st)
     = Some (Ok (Hash [(Float f, Integer 1)]))
   \<and> returned (Eval h 4 (Expression (HashLiteral
        [(IfExpression (BoolLiteral False) [] None, IntegerLiteral 1)])) env st)
     = Some (Ok (Hash [(Null, Integer 1)]))
   \<and> Hashable (Array a []) = Ok False \<and> Hashable (Function a [] [] env) = Ok False
   \<and> Hashable (Float f) = Ok False \<and> Hashable Null = Ok False
   \<and> evalIndexExpression h (Hash []) (Array a []) = Ok (Error ''unusable as hash key: ARRAY'')"
  by (simp add: eval_nat_numeral eval_defs evalIndexExpression_def evalHashIndexExpression_def)

subsection \<open>The prefix operator minus\<close>

text \<open>
  Claim C4. The prefix operator \<open>-\<close> should negate a \<open>Float\<close> operand as it negates
  an \<open>Integer\<close>. \<open>evalMinusPrefixOperatorExpression\<close> was not extended when floats were
  added to the evaluator: it still returns an error for every operand whose type is not
  \<open>INTEGER\<close>. So \<open>-f\<close> for a float literal \<open>f\<close> evaluates to the error
  \<open>unknown operator: -FLOAT\<close>, whatever the host and the heap are, while the infix
  operator \<open>-\<close> on two floats computes their difference and the prefix operator on an
  integer negates it.
\<close>

theorem minus_of_float_is_error:
  "returned (Eval h 2 (Expression (PrefixExpression ''-'' (FloatLiteral f))) env st)
     = Some (Ok (Error ''unknown operator: -FLOAT''))
   \<and> returned (Eval h 2 (Expression (InfixExpression ''-'' (FloatLiteral f) (FloatLiteral g)))
        env st)
     = Some (Ok (Float (float_sub h f g)))
   \<and> returned (Eval h 2 (Expression (PrefixExpression ''-'' (IntegerLiteral i))) env st)
     = Some (Ok (Integer (- i)))"
  by (simp add: numeral_2_eq_2 eval_defs evalPrefixExpression_def
        evalMinusPrefixOperatorExpression_def evalInfixExpression_def
        evalFloatInfixExpression_def as_Integer_def as_Float_def)

subsection \<open>Calls with the wrong number of arguments\<close>

lemma extendFunctionEnv_loop_short:
  "i \<le> length args \<Longrightarrow> length args < i + length params \<Longrightarrow>
   \<exists>st'. extendFunctionEnv_loop params i args env st
           = Panic (index_out_of_range (length args) (length args)) st'"
proof (induction params arbitrary: i st)
  case Nil
  then show ?case by simp
next
  case (Cons p ps)
  show ?case
  proof (cases "i < length args")
    case True
    with Cons.prems have "Suc i \<le> length args" "length args < Suc i + length ps" by simp_all
    from Cons.IH [OF this] True show ?thesis by simp
  next
    case False
    with Cons.prems have "i = length args" by simp
    then show ?thesis by simp
  qed
qed

lemma extendFunctionEnv_loop_take:
  "i + length params \<le> length args \<Longrightarrow> i + length params \<le> n \<Longrightarrow>
   extendFunctionEnv_loop params i (take n args) env st
     = extendFunctionEnv_loop params i args env st"
proof (induction params arbitrary: i st)
  case Nil
  then show ?case by simp
next
  case (Cons p ps)
  from Cons.prems have "Suc i + length ps \<le> length args" "Suc i + length ps \<le> n"
    by simp_all
  from Cons.IH [OF this] Cons.prems show ?case by simp
qed

text \<open>
  Claim C9. Applying a user-defined function to fewer arguments than it has parameters
  does not return: \<open>extendFunctionEnv\<close> reads \<open>args[paramIdx]\<close> for every parameter, and
  the read at the first missing position, \<open>paramIdx = len(args)\<close>, panics with an index
  out of range. The outcome is this panic, not an \<open>Error\<close> value and not a call with
  \<open>Null\<close> for the missing arguments. With at least as many arguments as parameters, the
  arguments beyond the parameters are never read: the call behaves as the call with the
  surplus cut off.
\<close>

theorem short_argument_list_panics:
  "(length args < length params \<longrightarrow>
      (\<exists>st'. applyFunction h ev (Function a params body fn_env) args st
              = Panic (index_out_of_range (length args) (length args)) st'))
   \<and> (length params \<le> length args \<longrightarrow>
      applyFunction h ev (Function a params body fn_env) args st
        = applyFunction h ev (Function a params body fn_env) (take (length params) args) st)"
proof (intro conjI impI)
  assume short: "length args < length params"
  obtain env st0 where new: "NewEnclosedEnvironment fn_env st = (env, st0)"
    by (cases "NewEnclosedEnvironment fn_env st")
  from short obtain st' where
    "extendFunctionEnv_loop params 0 args env st0
       = Panic (index_out_of_range (length args) (length args)) st'"
    using extendFunctionEnv_loop_short [of 0 args params env st0] by auto
  then show "\<exists>st'. applyFunction h ev (Function a params body fn_env) args st
              = Panic (index_out_of_range (length args) (length args)) st'"
    by (simp add: applyFunction_def extendFunctionEnv_def new)
next
  assume "length params \<le> length args"
  then have "extendFunctionEnv params fn_env args st
           = extendFunctionEnv params fn_env (take (length params) args) st"
    using extendFunctionEnv_loop_take [of 0 params args "length params"]
    by (simp add: extendFunctionEnv_def split: prod.splits)
  then show "applyFunction h ev (Function a params body fn_env) args st
        = applyFunction h ev (Function a params body fn_env) (take (length params) args) st"
    by (simp add: applyFunction_def)
qed

theorem short_argument_list_panics_witness:
  "length [Integer 1] < length [''a'', ''b'']
   \<and> (\<exists>st'. applyFunction plain_host (Eval plain_host 3) (Function 1 [''a'', ''b''] [] 0)
              [Integer 1] fresh_heap
            = Panic ''runtime error: index out of range [1] with length 1'' st')
   \<and> length [''a''] \<le> length [Integer 1, Integer 2]
   \<and> applyFunction plain_host (Eval plain_host 3)
        (Function 1 [''a''] [ExpressionStatement (Identifier ''a'')] 0) [Integer 1, Integer 2]
        fresh_heap
      = applyFunction plain_host (Eval plain_host 3)
        (Function 1 [''a''] [ExpressionStatement (Identifier ''a'')] 0) [Integer 1] fresh_heap"
  using short_argument_list_panics
          [of "[Integer 1]" "[''a'', ''b'']" plain_host "Eval plain_host 3" 1 "[]" 0 fresh_heap]
        short_argument_list_panics
          [of "[Integer 1, Integer 2]" "[''a'']" plain_host "Eval plain_host 3" 1
              "[ExpressionStatement (Identifier ''a'')]" 0 fresh_heap]
  by (simp add: index_out_of_range_def decimal.simps)

subsection \<open>The loop of evalProgram\<close>

lemma case_continues:
  "\<not> ends_loop r \<Longrightarrow> (case r of ReturnValue v \<Rightarrow> A v | Error e \<Rightarrow> B e | _ \<Rightarrow> C) = C"
  by (cases r) (simp_all add: ends_loop_def)

lemma block_continues:
  "\<not> ends_loop r \<Longrightarrow>
   (if r \<noteq> Nil_Object \<and> (Type r = Ok RETURN_VALUE \<or> Type r = Ok ERROR) then A else B) = B"
  by (cases r) (simp_all add: ends_loop_def)

lemma falls_through_program:
  "falls_through ev pre env st = Some st1 \<Longrightarrow>
   evalProgram_loop ev (pre @ s # ss) env r st = evalProgram_loop ev (s # ss) env r' st1"
proof (induction pre arbitrary: r st)
  case Nil
  then show ?case by simp
next
  case (Cons a pre)
  from Cons.prems obtain x st' where
    step: "ev (Statement a) env st = Ret x st'" and cont: "\<not> ends_loop x"
    and rest: "falls_through ev pre env st' = Some st1"
    by (auto split: outcome.splits if_splits)
  from Cons.IH [OF rest] show ?case
    by (simp add: step case_continues [OF cont])
qed


subsection \<open>Let statements\<close>

text \<open>
  Claim C10, as it stands, fails for a program that ends before its last statement: in
  \<open>return 1; let x = 2;\<close> the last statement is a let statement whose right-hand side is
  not an \<open>Error\<close>, and which alone evaluates to nil, but \<open>evalProgram\<close> returns at the
  \<open>return\<close> and the program's result is the integer 1.
\<close>

theorem program_may_end_before_last_let:
  "returned (Eval plain_host 2 (Statement (LetStatement ''x'' (IntegerLiteral 2))) 0 fresh_heap)
     = Some (Ok Nil_Object)
   \<and> returned (Eval plain_host 3
        (Program [ReturnStatement (IntegerLiteral 1), LetStatement ''x'' (IntegerLiteral 2)])
        0 fresh_heap)
     = Some (Ok (Integer 1))"
  by (simp add: eval_nat_numeral eval_defs)

text \<open>
  Claim C10, amended. A let statement whose right-hand side does not evaluate to an
  \<open>Error\<close> binds the name and falls out of the \<open>switch\<close> of \<open>Eval\<close>, which then returns
  the nil interface value, not the object \<open>Null\<close>. Hence a program that reaches such a
  let statement as its last statement (no statement before it yields a \<open>ReturnValue\<close> or
  an \<open>Error\<close>, which would end the loop of \<open>evalProgram\<close>) returns nil, and \<open>Inspect\<close>
  called on this result dereferences nil.
\<close>

theorem let_statement_yields_nil:
  "(Eval h n (Expression rhs) env st = Ret v st' \<and> \<not> isError v \<longrightarrow>
      Eval h (Suc n) (Statement (LetStatement name rhs)) env st
        = Ret Nil_Object (Environment_Set st' env name v))
   \<and> (falls_through (Eval h (Suc n)) pre env st = Some st1
       \<and> Eval h n (Expression rhs) env st1 = Ret v st2 \<and> \<not> isError v \<longrightarrow>
      Eval h (Suc (Suc n)) (Program (pre @ [LetStatement name rhs])) env st
        = Ret Nil_Object (Environment_Set st2 env name v))
   \<and> Nil_Object \<noteq> Null \<and> Inspect h Nil_Object = Fault nil_dereference"
proof (intro conjI impI)
  assume a: "falls_through (Eval h (Suc n)) pre env st = Some st1
       \<and> Eval h n (Expression rhs) env st1 = Ret v st2 \<and> \<not> isError v"
  then have "evalProgram_loop (Eval h (Suc n)) (pre @ [LetStatement name rhs]) env Nil_Object st
      = evalProgram_loop (Eval h (Suc n)) [LetStatement name rhs] env Nil_Object st1"
    by (intro falls_through_program) simp
  with a show "Eval h (Suc (Suc n)) (Program (pre @ [LetStatement name rhs])) env st
        = Ret Nil_Object (Environment_Set st2 env name v)"
    by (simp add: evalProgram_def)
qed simp_all

theorem let_statement_yields_nil_witness:
  "Eval plain_host (Suc 0) (Expression (IntegerLiteral 5)) 0 fresh_heap
     = Ret (Integer 5) fresh_heap
   \<and> \<not> isError (Integer 5)
   \<and> Eval plain_host (Suc (Suc 0)) (Statement (LetStatement ''x'' (IntegerLiteral 5))) 0 fresh_heap
     = Ret Nil_Object (Environment_Set fresh_heap 0 ''x'' (Integer 5))
   \<and> falls_through (Eval plain_host (Suc (Suc 0))) [ExpressionStatement (IntegerLiteral 1)] 0
        fresh_heap = Some fresh_heap
   \<and> Eval plain_host (Suc (Suc (Suc 0)))
        (Program ([ExpressionStatement (IntegerLiteral 1)] @ [LetStatement ''x'' (IntegerLiteral 5)]))
        0 fresh_heap
     = Ret Nil_Object (Environment_Set fresh_heap 0 ''x'' (Integer 5))"
  using let_statement_yields_nil
          [of plain_host "Suc 0" "IntegerLiteral 5" 0 fresh_heap "Integer 5" fresh_heap "''x''"
              "[ExpressionStatement (IntegerLiteral 1)]" fresh_heap fresh_heap]
  by (simp add: isError_def ends_loop_def)

subsection \<open>Return values\<close>





subsection \<open>Closures\<close>

lemma extendFunctionEnv_loop_frame:
  "i + length params \<le> length args \<Longrightarrow>
   \<exists>st'. extendFunctionEnv_loop params i args frame st = Ret frame st'
         \<and> next_addr st' = next_addr st
         \<and> (\<forall>a. a \<noteq> frame \<longrightarrow> envs st' a = envs st a)
         \<and> parent (envs st' frame) = parent (envs st frame)
         \<and> (\<forall>x. x \<notin> set params \<longrightarrow> store (envs st' frame) x = store (envs st frame) x)"
proof (induction params arbitrary: i st)
  case Nil
  then show ?case by simp
next
  case (Cons p ps)
  let ?st = "Environment_Set st frame p (args ! i)"
  from Cons.prems have "Suc i + length ps \<le> length args" by simp
  from Cons.IH [OF this, of ?st] obtain st' where
    "extendFunctionEnv_loop ps (Suc i) args frame ?st = Ret frame st'"
    "next_addr st' = next_addr ?st"
    "\<forall>a. a \<noteq> frame \<longrightarrow> envs st' a = envs ?st a"
    "parent (envs st' frame) = parent (envs ?st frame)"
    "\<forall>x. x \<notin> set ps \<longrightarrow> store (envs st' frame) x = store (envs ?st frame) x"
    by blast
  with Cons.prems show ?case
    by (auto simp: Environment_Set_def)
qed

lemma Environment_Get_parent:
  "store (envs st frame) name = None \<Longrightarrow> parent (envs st frame) = Some env \<Longrightarrow>
   store (envs st env) name = Some v \<Longrightarrow> Environment_Get st frame name = Some (v, True)"
  by (subst Environment_Get.simps, simp, subst Environment_Get.simps, simp)

lemma call_frame_sees_binding:
  assumes "env < next_addr st" "store (envs st env) name = Some v" "name \<notin> set params"
    "length params \<le> length args"
  shows "\<exists>st'. extendFunctionEnv params env args st = Ret (next_addr st) st'
         \<and> parent (envs st' (next_addr st)) = Some env
         \<and> envs st' env = envs st env
         \<and> Environment_Get st' (next_addr st) name = Some (v, True)
         \<and> evalIdentifier h name (next_addr st) st' = Ret v st'"
proof -
  let ?frame = "next_addr st"
  let ?st0 = "st\<lparr>envs := (envs st)(?frame := \<lparr>store = Map.empty, parent = Some env\<rparr>),
                 next_addr := Suc ?frame\<rparr>"
  have new: "NewEnclosedEnvironment env st = (?frame, ?st0)"
    by (simp add: NewEnclosedEnvironment_def NewEnvironment_def)
  from assms(4) have "0 + length params \<le> length args" by simp
  from extendFunctionEnv_loop_frame [OF this, of ?frame ?st0] obtain st' where
    loop: "extendFunctionEnv_loop params 0 args ?frame ?st0 = Ret ?frame st'"
    and others: "\<forall>a. a \<noteq> ?frame \<longrightarrow> envs st' a = envs ?st0 a"
    and par: "parent (envs st' ?frame) = parent (envs ?st0 ?frame)"
    and sto: "\<forall>x. x \<notin> set params \<longrightarrow> store (envs st' ?frame) x = store (envs ?st0 ?frame) x"
    by blast
  from assms(1) have ne: "env \<noteq> ?frame" by simp
  have 1: "extendFunctionEnv params env args st = Ret ?frame st'"
    by (simp add: extendFunctionEnv_def new loop)
  have 2: "parent (envs st' ?frame) = Some env" using par by simp
  have 3: "envs st' env = envs st env" using others ne by simp
  have 4: "store (envs st' ?frame) name = None" using sto assms(3) by simp
  have 5: "Environment_Get st' ?frame name = Some (v, True)"
    using Environment_Get_parent [OF 4 2] 3 assms(2) by simp
  have 6: "evalIdentifier h name ?frame st' = Ret v st'"
    by (simp add: evalIdentifier_def 5)
  from 1 2 3 5 6 show ?thesis by blast
qed

text \<open>
  Claim C8. Evaluating a function literal in the environment at address \<open>env\<close> stores
  that address in the function value; nothing is copied. A later call allocates a frame
  whose parent is \<open>env\<close> and binds the parameters in the frame, so an identifier that is
  not a parameter and is bound in \<open>env\<close> at the time of the call is found through the
  parent pointer, with its current value. In particular a binding that \<open>Set\<close> adds to
  \<open>env\<close> after the function was constructed is what the body \<open>name\<close> of the function
  evaluates to when it is called afterwards (with enough arguments for its parameters).
\<close>

theorem closure_sees_later_bindings:
  "Eval h (Suc n) (Expression (FunctionLiteral params body)) env st
     = Ret (Function (next_addr st) params body env) (st\<lparr>next_addr := Suc (next_addr st)\<rparr>)
   \<and> (env < next_addr st \<and> store (envs st env) name = Some v \<and> name \<notin> set params
       \<and> length params \<le> length args \<longrightarrow>
      (\<exists>st'. extendFunctionEnv params env args st = Ret (next_addr st) st'
         \<and> parent (envs st' (next_addr st)) = Some env
         \<and> envs st' env = envs st env
         \<and> Environment_Get st' (next_addr st) name = Some (v, True)
         \<and> evalIdentifier h name (next_addr st) st' = Ret v st'))
   \<and> (env < next_addr st \<and> name \<notin> set params \<and> length params \<le> length args
       \<and> Eval h (Suc m) (Expression (FunctionLiteral params
            [ExpressionStatement (Identifier name)])) env st = Ret f st1 \<longrightarrow>
      (\<exists>st'. applyFunction h (Eval h (Suc (Suc (Suc k)))) f args (Environment_Set st1 env name v)
              = Ret (unwrapReturnValue v) st'))"
proof (intro conjI impI)
  show "Eval h (Suc n) (Expression (FunctionLiteral params body)) env st
     = Ret (Function (next_addr st) params body env) (st\<lparr>next_addr := Suc (next_addr st)\<rparr>)"
    by simp
next
  assume "env < next_addr st \<and> store (envs st env) name = Some v \<and> name \<notin> set params
       \<and> length params \<le> length args"
  then show "\<exists>st'. extendFunctionEnv params env args st = Ret (next_addr st) st'
         \<and> parent (envs st' (next_addr st)) = Some env
         \<and> envs st' env = envs st env
         \<and> Environment_Get st' (next_addr st) name = Some (v, True)
         \<and> evalIdentifier h name (next_addr st) st' = Ret v st'"
    using call_frame_sees_binding by blast
next
  assume a: "env < next_addr st \<and> name \<notin> set params \<and> length params \<le> length args
       \<and> Eval h (Suc m) (Expression (FunctionLiteral params
            [ExpressionStatement (Identifier name)])) env st = Ret f st1"
  let ?st2 = "Environment_Set st1 env name v"
  from a have f: "f = Function (next_addr st) params [ExpressionStatement (Identifier name)] env"
    and st1: "st1 = st\<lparr>next_addr := Suc (next_addr st)\<rparr>" by simp_all
  have "env < next_addr ?st2" "store (envs ?st2 env) name = Some v"
    using a by (simp_all add: st1 Environment_Set_def)
  from call_frame_sees_binding [OF this, of params args h] a obtain st' where
    ext: "extendFunctionEnv params env args ?st2 = Ret (next_addr ?st2) st'"
    and ident: "evalIdentifier h name (next_addr ?st2) st' = Ret v st'"
    by blast
  have "Eval h (Suc (Suc (Suc k))) (BlockStatement [ExpressionStatement (Identifier name)])
          (next_addr ?st2) st' = Ret v st'"
    by (simp add: evalBlockStatement_def ident)
  then have "applyFunction h (Eval h (Suc (Suc (Suc k)))) f args ?st2
      = Ret (unwrapReturnValue v) st'"
    by (simp add: applyFunction_def f ext del: Eval.simps)
  then show "\<exists>st'. applyFunction h (Eval h (Suc (Suc (Suc k)))) f args ?st2
      = Ret (unwrapReturnValue v) st'"
    by blast
qed


theorem closure_sees_later_bindings_witness:
  "Eval plain_host (Suc 0)
       (Expression (FunctionLiteral [''a''] [ExpressionStatement (Identifier ''x'')])) 0 fresh_heap
     = Ret (Function 1 [''a''] [ExpressionStatement (Identifier ''x'')] 0)
         (fresh_heap\<lparr>next_addr := 2\<rparr>)
   \<and> (0::nat) < next_addr fresh_heap \<and> ''x'' \<notin> set [''a''] \<and> length [''a''] \<le> length [Integer 1]
   \<and> store (envs (Environment_Set fresh_heap 0 ''x'' (Integer 7)) 0) ''x'' = Some (Integer 7)
   \<and> (\<exists>st'. extendFunctionEnv [''a''] 0 [Integer 1] (Environment_Set fresh_heap 0 ''x'' (Integer 7))
               = Ret 1 st'
            \<and> parent (envs st' 1) = Some 0
            \<and> Environment_Get st' 1 ''x'' = Some (Integer 7, True)
            \<and> evalIdentifier plain_host ''x'' 1 st' = Ret (Integer 7) st')
   \<and> store (envs fresh_heap 0) ''x'' = None
   \<and> (\<exists>st'. applyFunction plain_host (Eval plain_host (Suc (Suc (Suc 0))))
               (Function 1 [''a''] [ExpressionStatement (Identifier ''x'')] 0) [Integer 1]
               (Environment_Set (fresh_heap\<lparr>next_addr := 2\<rparr>) 0 ''x'' (Integer 7))
             = Ret (Integer 7) st')"
proof -
  let ?body = "[ExpressionStatement (Identifier ''x'')]"
  let ?st = "Environment_Set fresh_heap 0 ''x'' (Integer 7)"
  have A: "Eval plain_host (Suc 0) (Expression (FunctionLiteral [''a''] ?body)) 0 fresh_heap
     = Ret (Function 1 [''a''] ?body 0) (fresh_heap\<lparr>next_addr := 2\<rparr>)"
    by (simp add: fresh_heap_def)
  have H: "(0::nat) < next_addr fresh_heap" "''x'' \<notin> set [''a'']"
    "length [''a''] \<le> length [Integer 1]"
    "store (envs ?st 0) ''x'' = Some (Integer 7)" "store (envs fresh_heap 0) ''x'' = None"
    by (simp_all add: fresh_heap_def Environment_Set_def)
  have B: "\<exists>st'. extendFunctionEnv [''a''] 0 [Integer 1] ?st = Ret 1 st'
            \<and> parent (envs st' 1) = Some 0
            \<and> Environment_Get st' 1 ''x'' = Some (Integer 7, True)
            \<and> evalIdentifier plain_host ''x'' 1 st' = Ret (Integer 7) st'"
    using closure_sees_later_bindings
            [of plain_host 0 "[''a'']" ?body 0 ?st "''x''" "Integer 7" "[Integer 1]" 0
                "Function 1 [''a''] ?body 0" "?st\<lparr>next_addr := 2\<rparr>" 0]
    by (auto simp: fresh_heap_def Environment_Set_def)
  have C: "\<exists>st'. applyFunction plain_host (Eval plain_host (Suc (Suc (Suc 0))))
               (Function 1 [''a''] ?body 0) [Integer 1]
               (Environment_Set (fresh_heap\<lparr>next_addr := 2\<rparr>) 0 ''x'' (Integer 7))
             = Ret (Integer 7) st'"
    using closure_sees_later_bindings
            [of plain_host 0 "[''a'']" ?body 0 fresh_heap "''x''" "Integer 7" "[Integer 1]" 0
                "Function 1 [''a''] ?body 0" "fresh_heap\<lparr>next_addr := 2\<rparr>" 0]
    by (simp add: fresh_heap_def unwrapReturnValue_def)
  from A H B C show ?thesis by blast
qed

subsection \<open>Errors\<close>

lemma falls_through_block:
  "falls_through ev pre env st = Some st1 \<Longrightarrow>
   evalBlockStatement_loop ev (pre @ s # ss) env r st
     = evalBlockStatement_loop ev (s # ss) env r' st1"
proof (induction pre arbitrary: r st)
  case Nil
  then show ?case by simp
next
  case (Cons a pre)
  from Cons.prems obtain x st' where
    step: "ev (Statement a) env st = Ret x st'" and cont: "\<not> ends_loop x"
    and rest: "falls_through ev pre env st' = Some st1"
    by (auto split: outcome.splits if_splits)
  from Cons.IH [OF rest] show ?case
    by (simp add: step block_continues [OF cont])
qed

lemma evalExpressions_loop_prefix:
  "evalExpressions_loop ev pre env acc st = Ret vs st1 \<Longrightarrow>
   list_all (\<lambda>v. \<not> isError v) vs \<Longrightarrow>
   evalExpressions_loop ev (pre @ rest) env acc st = evalExpressions_loop ev rest env vs st1"
proof (induction pre arbitrary: acc st)
  case Nil
  then show ?case by simp
next
  case (Cons a pre)
  from Cons.prems(1) obtain x st' where step: "ev (Expression a) env st = Ret x st'"
    by (cases "ev (Expression a) env st") simp_all
  show ?case
  proof (cases "isError x")
    case True
    with Cons.prems step show ?thesis by auto
  next
    case False
    with Cons.prems step Cons.IH [of "acc @ [x]" st'] show ?thesis by simp
  qed
qed

lemma evalExpressions_error:
  assumes "evalExpressions ev pre env st
       = Ret vs st1" "list_all (\<lambda>v. \<not> isError v) vs"
    "ev (Expression e) env st1 = Ret (Error m) st'"
  shows "evalExpressions ev (pre @ e # post) env st = Ret [Error m] st'"
  using evalExpressions_loop_prefix [of ev pre env "[]" st vs st1 "e # post"] assms
  by (simp add: evalExpressions_def isError_def)

lemma isError_Hash: "\<not> isError (Hash m)"
  by (simp add: isError_def)

lemma evalHashLiteral_loop_prefix:
  "evalHashLiteral_loop h ev pre env m st = Ret (Hash m') st1 \<Longrightarrow>
   evalHashLiteral_loop h ev (pre @ rest) env m st = evalHashLiteral_loop h ev rest env m' st1"
proof (induction pre arbitrary: m st)
  case Nil
  then show ?case by simp
next
  case (Cons p pre)
  obtain k v where p: "p = (k, v)" by (cases p)
  from Cons.prems obtain key sa where k: "ev (Expression k) env st = Ret key sa"
    by (cases "ev (Expression k) env st") (simp_all add: p)
  have nk: "\<not> isError key"
    using Cons.prems by (auto simp: p k isError_Hash)
  from Cons.prems obtain val sb where v: "ev (Expression v) env sa = Ret val sb"
    by (cases "ev (Expression v) env sa") (simp_all add: p k nk)
  have nv: "\<not> isError val"
    using Cons.prems by (auto simp: p k nk v isError_Hash)
  from Cons.prems obtain m2 where a: "map_assign h m key val = Ok m2"
    by (cases "map_assign h m key val") (simp_all add: p k nk v nv)
  from Cons.prems have "evalHashLiteral_loop h ev pre env m2 sb = Ret (Hash m') st1"
    by (simp add: p k nk v nv a)
  from Cons.IH [OF this] show ?case
    by (simp add: p k nk v nv a)
qed

lemma evalHashLiteral_prefix:
  assumes "evalHashLiteral h ev pre env st = Ret (Hash m') st1"
  shows "evalHashLiteral_loop h ev (pre @ rest) env [] st
           = evalHashLiteral_loop h ev rest env m' st1"
proof -
  from assms have "evalHashLiteral_loop h ev pre env [] st = Ret (Hash m') st1"
    by (cases "evalHashLiteral_loop h ev pre env [] st")
       (simp_all add: evalHashLiteral_def newError_def)
  then show ?thesis by (rule evalHashLiteral_loop_prefix)
qed


text \<open>
  Claim C3. An \<open>Error\<close> that a subexpression evaluates to is the value of the enclosing
  expression, unchanged. This holds at every position that is evaluated: the operand of a
  prefix expression, either operand of an infix expression, the callee and every
  argument of a call, every element of an array literal, every key and every value of a
  hash literal, both operands of an index expression and the condition of an
  if-expression; for the second and later positions, when the parts before it have been
  evaluated without an error. A statement whose expression yields an \<open>Error\<close> yields that
  \<open>Error\<close>, and a program or block that reaches such a statement returns it. The
  \<open>Error\<close> that the block of a taken branch returns is the value of the if-expression,
  and the \<open>Error\<close> that the body of a user-defined function returns is the value of the
  call: with these steps an \<open>Error\<close> is carried from any depth to the result of the
  whole program.
\<close>

theorem error_containment:
  "(Eval h n (Expression e) env st = Ret (Error m) st' \<longrightarrow>
      Eval h (Suc n) (Expression (PrefixExpression operator e)) env st = Ret (Error m) st'
      \<and> Eval h (Suc n) (Expression (InfixExpression operator e b)) env st = Ret (Error m) st'
      \<and> Eval h (Suc n) (Expression (CallExpression e arguments)) env st = Ret (Error m) st'
      \<and> Eval h (Suc n) (Expression (IndexExpression e b)) env st = Ret (Error m) st'
      \<and> Eval h (Suc n) (Expression (IfExpression e consequence alternative)) env st
          = Ret (Error m) st'
      \<and> Eval h (Suc n) (Statement (ExpressionStatement e)) env st = Ret (Error m) st'
      \<and> Eval h (Suc n) (Statement (LetStatement name e)) env st = Ret (Error m) st'
      \<and> Eval h (Suc n) (Statement (ReturnStatement e)) env st = Ret (Error m) st')
   \<and> (Eval h n (Expression a) env st0 = Ret av st \<and> \<not> isError av
       \<and> Eval h n (Expression e) env st = Ret (Error m) st' \<longrightarrow>
      Eval h (Suc n) (Expression (InfixExpression operator a e)) env st0 = Ret (Error m) st'
      \<and> Eval h (Suc n) (Expression (IndexExpression a e)) env st0 = Ret (Error m) st')
   \<and> (Eval h n (Expression f) env st0 = Ret fv st1 \<and> \<not> isError fv
       \<and> evalExpressions (Eval h n) pre env st1
       = Ret vs st \<and> list_all (\<lambda>v. \<not> isError v) vs
       \<and> Eval h n (Expression e) env st = Ret (Error m) st' \<longrightarrow>
      Eval h (Suc n) (Expression (CallExpression f (pre @ e # post))) env st0
        = Ret (Error m) st')
   \<and> (evalExpressions (Eval h n) pre env st1
       = Ret vs st \<and> list_all (\<lambda>v. \<not> isError v) vs
       \<and> Eval h n (Expression e) env st = Ret (Error m) st' \<longrightarrow>
      Eval h (Suc n) (Expression (ArrayLiteral (pre @ e # post))) env st1 = Ret (Error m) st')
   \<and> (evalHashLiteral h (Eval h n) ps env st1 = Ret (Hash entries) st
       \<and> Eval h n (Expression e) env st = Ret (Error m) st' \<longrightarrow>
      Eval h (Suc n) (Expression (HashLiteral (ps @ (e, b) # qs))) env st1 = Ret (Error m) st')
   \<and> (evalHashLiteral h (Eval h n) ps env st1 = Ret (Hash entries) st0
       \<and> Eval h n (Expression a) env st0 = Ret av st \<and> \<not> isError av
       \<and> Eval h n (Expression e) env st = Ret (Error m) st' \<longrightarrow>
      Eval h (Suc n) (Expression (HashLiteral (ps @ (a, e) # qs))) env st1 = Ret (Error m) st')
   \<and> (falls_through (Eval h n) stmts env st1 = Some st
       \<and> Eval h n (Statement s) env st = Ret (Error m) st' \<longrightarrow>
      Eval h (Suc n) (Program (stmts @ s # rest)) env st1 = Ret (Error m) st'
      \<and> Eval h (Suc n) (BlockStatement (stmts @ s # rest)) env st1 = Ret (Error m) st')
   \<and> (Eval h n (Expression a) env st0 = Ret av st \<and> \<not> isError av \<and> isTruthy av
       \<and> Eval h n (BlockStatement blk) env st = Ret (Error m) st' \<longrightarrow>
      Eval h (Suc n) (Expression (IfExpression a blk alternative)) env st0 = Ret (Error m) st')
   \<and> (Eval h n (Expression c) env st0 = Ret cv st \<and> \<not> isError cv \<and> \<not> isTruthy cv
       \<and> Eval h n (BlockStatement blk) env st = Ret (Error m) st' \<longrightarrow>
      Eval h (Suc n) (Expression (IfExpression c consequence (Some blk))) env st0
        = Ret (Error m) st')
   \<and> (extendFunctionEnv params fn_env args sc = Ret frame sf
       \<and> ev (BlockStatement body) frame sf = Ret (Error m) st' \<longrightarrow>
      applyFunction h ev (Function fa params body fn_env) args sc = Ret (Error m) st')
   \<and> (Eval h n (Expression f) env st0 = Ret (Function fa params body fn_env) st1
       \<and> evalExpressions (Eval h n) arguments env st1 = Ret args sc
       \<and> list_all (\<lambda>v. \<not> isError v) args
       \<and> extendFunctionEnv params fn_env args sc = Ret frame sf
       \<and> Eval h n (BlockStatement body) frame sf = Ret (Error m) st' \<longrightarrow>
      Eval h (Suc n) (Expression (CallExpression f arguments)) env st0 = Ret (Error m) st')"
proof (intro conjI impI)
  assume "extendFunctionEnv params fn_env args sc = Ret frame sf
       \<and> ev (BlockStatement body) frame sf = Ret (Error m) st'"
  then show "applyFunction h ev (Function fa params body fn_env) args sc = Ret (Error m) st'"
    by (simp add: applyFunction_def unwrapReturnValue_def)
next
  assume a: "Eval h n (Expression f) env st0 = Ret (Function fa params body fn_env) st1
       \<and> evalExpressions (Eval h n) arguments env st1 = Ret args sc
       \<and> list_all (\<lambda>v. \<not> isError v) args
       \<and> extendFunctionEnv params fn_env args sc = Ret frame sf
       \<and> Eval h n (BlockStatement body) frame sf = Ret (Error m) st'"
  then have ne: "\<not> (length args = 1 \<and> isError (args ! 0))"
    by (cases args) auto
  have nf: "\<not> isError (Function fa params body fn_env)"
    by (simp add: isError_def)
  from a nf ne show "Eval h (Suc n) (Expression (CallExpression f arguments)) env st0
      = Ret (Error m) st'"
    by (auto simp: applyFunction_def unwrapReturnValue_def)
next
  assume a: "Eval h n (Expression f) env st0 = Ret fv st1 \<and> \<not> isError fv
       \<and> evalExpressions (Eval h n) pre env st1
       = Ret vs st \<and> list_all (\<lambda>v. \<not> isError v) vs
       \<and> Eval h n (Expression e) env st = Ret (Error m) st'"
  then have "evalExpressions (Eval h n) (pre @ e # post) env st1 = Ret [Error m] st'"
    by (intro evalExpressions_error [of _ _ _ _ vs st]) simp_all
  with a show "Eval h (Suc n) (Expression (CallExpression f (pre @ e # post))) env st0
        = Ret (Error m) st'"
    by (simp add: isError_def)
next
  assume a: "evalExpressions (Eval h n) pre env st1 = Ret vs st
       \<and> list_all (\<lambda>v. \<not> isError v) vs
       \<and> Eval h n (Expression e) env st = Ret (Error m) st'"
  then have "evalExpressions (Eval h n) (pre @ e # post) env st1 = Ret [Error m] st'"
    by (intro evalExpressions_error [of _ _ _ _ vs st]) simp_all
  then show "Eval h (Suc n) (Expression (ArrayLiteral (pre @ e # post))) env st1
        = Ret (Error m) st'"
    by (simp add: isError_def)
next
  assume a: "evalHashLiteral h (Eval h n) ps env st1 = Ret (Hash entries) st
       \<and> Eval h n (Expression e) env st = Ret (Error m) st'"
  then have "evalHashLiteral_loop h (Eval h n) (ps @ (e, b) # qs) env [] st1
      = evalHashLiteral_loop h (Eval h n) ((e, b) # qs) env entries st"
    by (intro evalHashLiteral_prefix) simp
  with a show "Eval h (Suc n) (Expression (HashLiteral (ps @ (e, b) # qs))) env st1
        = Ret (Error m) st'"
    by (simp add: evalHashLiteral_def isError_def)
next
  assume a: "evalHashLiteral h (Eval h n) ps env st1 = Ret (Hash entries) st0
       \<and> Eval h n (Expression a) env st0 = Ret av st \<and> \<not> isError av
       \<and> Eval h n (Expression e) env st = Ret (Error m) st'"
  then have "evalHashLiteral_loop h (Eval h n) (ps @ (a, e) # qs) env [] st1
      = evalHashLiteral_loop h (Eval h n) ((a, e) # qs) env entries st0"
    by (intro evalHashLiteral_prefix) simp
  moreover have "isError (Error m)" by (simp add: isError_def)
  ultimately show "Eval h (Suc n) (Expression (HashLiteral (ps @ (a, e) # qs))) env st1
        = Ret (Error m) st'"
    using a by (simp add: evalHashLiteral_def)
next
  assume a: "falls_through (Eval h n) stmts env st1 = Some st
       \<and> Eval h n (Statement s) env st = Ret (Error m) st'"
  then have "evalProgram_loop (Eval h n) (stmts @ s # rest) env Nil_Object st1
      = evalProgram_loop (Eval h n) (s # rest) env Nil_Object st"
    by (intro falls_through_program) simp
  with a show "Eval h (Suc n) (Program (stmts @ s # rest)) env st1 = Ret (Error m) st'"
    by (simp add: evalProgram_def)
next
  assume a: "falls_through (Eval h n) stmts env st1 = Some st
       \<and> Eval h n (Statement s) env st = Ret (Error m) st'"
  then have "evalBlockStatement_loop (Eval h n) (stmts @ s # rest) env Nil_Object st1
      = evalBlockStatement_loop (Eval h n) (s # rest) env Nil_Object st"
    by (intro falls_through_block) simp
  with a show "Eval h (Suc n) (BlockStatement (stmts @ s # rest)) env st1 = Ret (Error m) st'"
    by (simp add: evalBlockStatement_def)
qed (simp_all add: isError_def evalIfExpression_def)


theorem error_containment_witness:
  "Eval plain_host 3 (Expression (PrefixExpression ''-'' (BoolLiteral True))) 0 fresh_heap
       = Ret (Error ''unknown operator: -BOOL'') fresh_heap
   \<and> Eval plain_host (Suc 3)
        (Expression (PrefixExpression ''+'' (PrefixExpression ''-'' (BoolLiteral True))))
        0 fresh_heap
       = Ret (Error ''unknown operator: -BOOL'') fresh_heap
   \<and> Eval plain_host (Suc 3)
        (Expression (InfixExpression ''+''
           (PrefixExpression ''-'' (BoolLiteral True)) (IntegerLiteral 1)))
        0 fresh_heap
       = Ret (Error ''unknown operator: -BOOL'') fresh_heap
   \<and> Eval plain_host (Suc 3)
        (Expression (CallExpression (PrefixExpression ''-'' (BoolLiteral True)) []))
        0 fresh_heap
       = Ret (Error ''unknown operator: -BOOL'') fresh_heap
   \<and> Eval plain_host (Suc 3)
        (Expression (IndexExpression
           (PrefixExpression ''-'' (BoolLiteral True)) (IntegerLiteral 1)))
        0 fresh_heap
       = Ret (Error ''unknown operator: -BOOL'') fresh_heap
   \<and> Eval plain_host (Suc 3)
        (Expression (IfExpression (PrefixExpression ''-'' (BoolLiteral True)) [] None))
        0 fresh_heap
       = Ret (Error ''unknown operator: -BOOL'') fresh_heap
   \<and> Eval plain_host (Suc 3)
        (Statement (ExpressionStatement (PrefixExpression ''-'' (BoolLiteral True))))
        0 fresh_heap
       = Ret (Error ''unknown operator: -BOOL'') fresh_heap
   \<and> Eval plain_host (Suc 3)
        (Statement (LetStatement ''x'' (PrefixExpression ''-'' (BoolLiteral True))))
        0 fresh_heap
       = Ret (Error ''unknown operator: -BOOL'') fresh_heap
   \<and> Eval plain_host (Suc 3)
        (Statement (ReturnStatement (PrefixExpression ''-'' (BoolLiteral True))))
        0 fresh_heap
       = Ret (Error ''unknown operator: -BOOL'') fresh_heap
   \<and> Eval plain_host 3 (Expression (IntegerLiteral 2)) 0 fresh_heap
       = Ret (Integer 2) fresh_heap
   \<and> \<not> isError (Integer 2)
   \<and> Eval plain_host (Suc 3)
        (Expression (InfixExpression ''+'' (IntegerLiteral 2)
           (PrefixExpression ''-'' (BoolLiteral True))))
        0 fresh_heap
       = Ret (Error ''unknown operator: -BOOL'') fresh_heap
   \<and> Eval plain_host (Suc 3)
        (Expression (IndexExpression (IntegerLiteral 2)
           (PrefixExpression ''-'' (BoolLiteral True))))
        0 fresh_heap
       = Ret (Error ''unknown operator: -BOOL'') fresh_heap
   \<and> Eval plain_host 3 (Expression (IntegerLiteral 3)) 0 fresh_heap
       = Ret (Integer 3) fresh_heap
   \<and> \<not> isError (Integer 3)
   \<and> evalExpressions (Eval plain_host 3) [IntegerLiteral 4] 0 fresh_heap
       = Ret [Integer 4] fresh_heap
   \<and> list_all (\<lambda>v. \<not> isError v) [Integer 4]
   \<and> Eval plain_host (Suc 3)
        (Expression (CallExpression (IntegerLiteral 3) ([IntegerLiteral 4] @
           (PrefixExpression ''-'' (BoolLiteral True)) # [])))
        0 fresh_heap
       = Ret (Error ''unknown operator: -BOOL'') fresh_heap
   \<and> Eval plain_host (Suc 3)
        (Expression (ArrayLiteral ([IntegerLiteral 4] @
           (PrefixExpression ''-'' (BoolLiteral True)) # [])))
        0 fresh_heap
       = Ret (Error ''unknown operator: -BOOL'') fresh_heap
   \<and> evalHashLiteral plain_host (Eval plain_host 3)
        [(IntegerLiteral 5, IntegerLiteral 6)]
        0 fresh_heap
       = Ret (Hash [(Integer 5, Integer 6)]) fresh_heap
   \<and> Eval plain_host (Suc 3)
        (Expression (HashLiteral ([(IntegerLiteral 5, IntegerLiteral 6)] @ (
           (PrefixExpression ''-'' (BoolLiteral True)), IntegerLiteral 1) # [])))
        0 fresh_heap
       = Ret (Error ''unknown operator: -BOOL'') fresh_heap
   \<and> Eval plain_host (Suc 3)
        (Expression (HashLiteral ([(IntegerLiteral 5, IntegerLiteral 6)] @ (IntegerLiteral 2,
           (PrefixExpression ''-'' (BoolLiteral True))) # [])))
        0 fresh_heap
       = Ret (Error ''unknown operator: -BOOL'') fresh_heap
   \<and> falls_through (Eval plain_host 3) [ExpressionStatement (IntegerLiteral 7)] 0 fresh_heap = Some fresh_heap
   \<and> Eval plain_host 3 (Statement (ExpressionStatement (PrefixExpression ''-'' (BoolLiteral True))))
        0 fresh_heap
       = Ret (Error ''unknown operator: -BOOL'') fresh_heap
   \<and> Eval plain_host (Suc 3)
        (Program ([ExpressionStatement (IntegerLiteral 7)] @ ExpressionStatement
           (PrefixExpression ''-'' (BoolLiteral True)) # []))
        0 fresh_heap
       = Ret (Error ''unknown operator: -BOOL'') fresh_heap
   \<and> Eval plain_host (Suc 3)
        (BlockStatement ([ExpressionStatement (IntegerLiteral 7)] @ ExpressionStatement
           (PrefixExpression ''-'' (BoolLiteral True)) # []))
        0 fresh_heap
       = Ret (Error ''unknown operator: -BOOL'') fresh_heap
   \<and> Eval plain_host 5 (Expression (IntegerLiteral 2)) 0 fresh_heap
       = Ret (Integer 2) fresh_heap
   \<and> isTruthy (Integer 2)
   \<and> Eval plain_host 5 (BlockStatement [ExpressionStatement (PrefixExpression ''-'' (BoolLiteral True))])
        0 fresh_heap
       = Ret (Error ''unknown operator: -BOOL'') fresh_heap
   \<and> Eval plain_host (Suc 5)
        (Expression (IfExpression (IntegerLiteral 2)
           [ExpressionStatement (PrefixExpression ''-'' (BoolLiteral True))] None))
        0 fresh_heap
       = Ret (Error ''unknown operator: -BOOL'') fresh_heap
   \<and> Eval plain_host 5 (Expression (BoolLiteral False)) 0 fresh_heap
       = Ret (Bool False) fresh_heap
   \<and> \<not> isError (Bool False) \<and> \<not> isTruthy (Bool False)
   \<and> Eval plain_host (Suc 5)
        (Expression (IfExpression (BoolLiteral False) []
           (Some [ExpressionStatement (PrefixExpression ''-'' (BoolLiteral True))])))
        0 fresh_heap
       = Ret (Error ''unknown operator: -BOOL'') fresh_heap
   \<and> extendFunctionEnv [] 0 [] (fresh_heap\<lparr>next_addr := 2\<rparr>)
       = Ret 2 (snd (NewEnclosedEnvironment 0 (fresh_heap\<lparr>next_addr := 2\<rparr>)))
   \<and> Eval plain_host 5 (BlockStatement [ExpressionStatement (PrefixExpression ''-'' (BoolLiteral True))])
        2 (snd (NewEnclosedEnvironment 0 (fresh_heap\<lparr>next_addr := 2\<rparr>)))
       = Ret (Error ''unknown operator: -BOOL'') (snd (NewEnclosedEnvironment 0 (fresh_heap\<lparr>next_addr := 2\<rparr>)))
   \<and> applyFunction plain_host (Eval plain_host 5)
        (Function 1 [] [ExpressionStatement (PrefixExpression ''-'' (BoolLiteral True))] 0) []
        (fresh_heap\<lparr>next_addr := 2\<rparr>)
       = Ret (Error ''unknown operator: -BOOL'') (snd (NewEnclosedEnvironment 0 (fresh_heap\<lparr>next_addr := 2\<rparr>)))
   \<and> Eval plain_host 5
        (Expression (FunctionLiteral [] [ExpressionStatement (PrefixExpression ''-'' (BoolLiteral True))]))
        0 fresh_heap
       = Ret (Function 1 [] [ExpressionStatement (PrefixExpression ''-'' (BoolLiteral True))] 0)
           (fresh_heap\<lparr>next_addr := 2\<rparr>)
   \<and> evalExpressions (Eval plain_host 5) [] 0 (fresh_heap\<lparr>next_addr := 2\<rparr>)
       = Ret [] (fresh_heap\<lparr>next_addr := 2\<rparr>)
   \<and> list_all (\<lambda>v. \<not> isError v) []
   \<and> Eval plain_host (Suc 5)
        (Expression (CallExpression
           (FunctionLiteral [] [ExpressionStatement (PrefixExpression ''-'' (BoolLiteral True))]) []))
        0 fresh_heap
       = Ret (Error ''unknown operator: -BOOL'') (snd (NewEnclosedEnvironment 0 (fresh_heap\<lparr>next_addr := 2\<rparr>)))"
  using error_containment
          [of plain_host 5 _ 0 fresh_heap "''unknown operator: -BOOL''" fresh_heap _ _ _ "[]"
             None _ "IntegerLiteral 2" fresh_heap "Integer 2" _ _ _ _ _ _ _ _ _ _ _ _
             "[ExpressionStatement (PrefixExpression ''-'' (BoolLiteral True))]"
             "BoolLiteral False" "Bool False"]
        error_containment
          [of plain_host 5 _ 0 _ "''unknown operator: -BOOL''"
             "snd (NewEnclosedEnvironment 0 (fresh_heap\<lparr>next_addr := 2\<rparr>))" _ _
             "[]" _ _ _ _ fresh_heap _
             "FunctionLiteral [] [ExpressionStatement (PrefixExpression ''-'' (BoolLiteral True))]"
             _ "fresh_heap\<lparr>next_addr := 2\<rparr>" _ _ _ _ _ _ _ _ _ _ _ _ "[]" 0 "[]"
             "fresh_heap\<lparr>next_addr := 2\<rparr>" 2
             "snd (NewEnclosedEnvironment 0 (fresh_heap\<lparr>next_addr := 2\<rparr>))"
             "Eval plain_host 5"
             "[ExpressionStatement (PrefixExpression ''-'' (BoolLiteral True))]" 1]
        error_containment
          [of plain_host
              3
              "PrefixExpression ''-'' (BoolLiteral True)"
              0
              fresh_heap
              "''unknown operator: -BOOL''"
              fresh_heap
              "''+''"
              "IntegerLiteral 1"
              "[]"
              "[]"
              None
              "''x''"
              "IntegerLiteral 2"
              fresh_heap
              "Integer 2"
              "IntegerLiteral 3"
              "Integer 3"
              fresh_heap
              "[IntegerLiteral 4]"
              "[Integer 4]"
              "[]"
              "[(IntegerLiteral 5, IntegerLiteral 6)]"
              "[(Integer 5, Integer 6)]"
              "[]"
              "[ExpressionStatement (IntegerLiteral 7)]"
              "ExpressionStatement (PrefixExpression ''-'' (BoolLiteral True))"
              "[]"]
  by (simp add: numeral_3_eq_3 eval_nat_numeral eval_defs ends_loop_def
        evalPrefixExpression_def evalMinusPrefixOperatorExpression_def applyFunction_def
        extendFunctionEnv_def unwrapReturnValue_def NewEnclosedEnvironment_def
        NewEnvironment_def fresh_heap_def)

end
